theory Spec2Isabelle
  imports Complex_Main "HOL-Library.Product_Lexorder"
begin

section \<open>Data model (src/memory/nodes.py)\<close>

text \<open>
  Exceptions are values. \<open>BackendError\<close> stands for whatever pymongo or chromadb
  raise, \<open>ServiceError\<close> for whatever the completion or embedding service raises,
  \<open>ValidationError\<close> for pydantic's rejection of a field value.
\<close>

datatype error =
  BackendError | ServiceError | JSONDecodeError | KeyError | ValueError | TypeError
  | ValidationError

datatype MemoryType = PERSONAL_IDENTITY | PREFERENCE | FACTUAL | EMOTIONAL_STATE

fun MemoryType_value :: "MemoryType \<Rightarrow> string" where
  "MemoryType_value PERSONAL_IDENTITY = ''personal_identity''"
| "MemoryType_value PREFERENCE = ''preference''"
| "MemoryType_value FACTUAL = ''factual''"
| "MemoryType_value EMOTIONAL_STATE = ''emotional_state''"

text \<open>
  A naive UTC \<open>datetime\<close>: year, month, day, hour, minute, second, microsecond.
  The lexicographic order of the tuple is the chronological order.
\<close>

type_synonym datetime = "nat \<times> nat \<times> nat \<times> nat \<times> nat \<times> nat \<times> nat"

definition digit :: "nat \<Rightarrow> char" where
  "digit n = ''0123456789'' ! (n mod 10)"

definition pad2 :: "nat \<Rightarrow> string" where
  "pad2 n = [digit (n div 10), digit n]"

definition pad4 :: "nat \<Rightarrow> string" where
  "pad4 n = pad2 (n div 100) @ pad2 n"

definition pad6 :: "nat \<Rightarrow> string" where
  "pad6 n = pad2 (n div 10000) @ pad4 n"

fun isoformat :: "datetime \<Rightarrow> string" where
  "isoformat (y, mo, d, h, mi, s, us) =
     pad4 y @ ''-'' @ pad2 mo @ ''-'' @ pad2 d @ ''T'' @ pad2 h @ '':'' @ pad2 mi @ '':'' @ pad2 s
       @ (if us = 0 then [] else ''.'' @ pad6 us)"

text \<open>
  Values of Python's dynamic type, as far as \<open>json.loads\<close> produces them. A
  \<open>dict\<close> is an association list read with \<open>map_of\<close>.
\<close>

datatype pyval =
  PNone | PBool bool | PInt int | PFloat real | PStr string
  | PList "pyval list" | PDict "(string \<times> pyval) list"

text \<open>The class \<open>MemoryNode\<close>. \<open>recency_value\<close> is a float, read here as a real.\<close>

record MemoryNode =
  memory_id :: string
  user_id :: string
  content :: string
  memory_type :: MemoryType
  timestamp :: datetime
  tags :: "string list"
  recency_value :: real
  source :: string
  embedding :: "real list option"
  conversation_context :: "string option"
  system_prompt_snippet :: "string option"
  is_hive_mind :: bool

text \<open>The class \<open>UserIdentity\<close>; its field names carry the prefix \<open>ui_\<close>.\<close>

record UserIdentity =
  ui_user_id :: string
  ui_name :: "string option"
  ui_age :: "int option"
  ui_gender :: "string option"
  ui_origin :: "string option"
  ui_current_context :: "string option"
  ui_primary_role :: "string option"
  ui_personal_identity :: "(string \<times> pyval) list"
  ui_professional_identity :: "(string \<times> pyval) list"
  ui_created_at :: datetime
  ui_updated_at :: datetime

section \<open>The two backends (src/memory/storage.py)\<close>

text \<open>
  One entry of the ChromaDB collection: id, vector, metadata (string keys and string
  values, as \<open>save_memory\<close> writes them) and document.
\<close>

record chroma_entry =
  ce_id :: string
  ce_embedding :: "real list"
  ce_metadata :: "(string \<times> string) list"
  ce_document :: string

text \<open>
  The state behind a \<open>MemoryStorage\<close> object. The MongoDB collections are lists in
  natural order with one document per \<open>_id\<close>; a document is held as the model
  object it was dumped from. \<open>faults\<close> is the outcome of the backend calls still to
  come, in order: \<open>faults 0\<close> tells whether the next call raises (for any reason
  of the backend's own: an outage, a vector of the wrong dimension).
  \<open>chroma_distance\<close> is the distance the vector collection ranks by.
\<close>

record MemoryStorage =
  memory_collection :: "MemoryNode list"
  identity_collection :: "UserIdentity list"
  chroma_collection :: "chroma_entry list"
  chroma_distance :: "real list \<Rightarrow> real list \<Rightarrow> real"
  faults :: "nat \<Rightarrow> bool"

definition backend_call :: "MemoryStorage \<Rightarrow> bool \<times> MemoryStorage" where
  "backend_call st = (faults st 0, st\<lparr>faults := (\<lambda>n. faults st (Suc n))\<rparr>)"

text \<open>\<open>replace_one({"_id": k}, doc, upsert=True)\<close> on a list keyed by \<open>key\<close>.\<close>

fun replace_one :: "('a \<Rightarrow> string) \<Rightarrow> 'a \<Rightarrow> 'a list \<Rightarrow> 'a list" where
  "replace_one key doc [] = [doc]"
| "replace_one key doc (d # ds) =
     (if key d = key doc then doc # ds else d # replace_one key doc ds)"

fun find_one :: "('a \<Rightarrow> string) \<Rightarrow> string \<Rightarrow> 'a list \<Rightarrow> 'a option" where
  "find_one key k [] = None"
| "find_one key k (d # ds) = (if key d = k then Some d else find_one key k ds)"

text \<open>Python's \<open>sep.join(xs)\<close> and \<open>str(b)\<close> for a bool.\<close>

fun join :: "string \<Rightarrow> string list \<Rightarrow> string" where
  "join sep [] = []"
| "join sep [x] = x"
| "join sep (x # y # ys) = x @ sep @ join sep (y # ys)"

definition str_bool :: "bool \<Rightarrow> string" where
  "str_bool b = (if b then ''True'' else ''False'')"

text \<open>The truth value of \<open>memory.embedding\<close>: neither \<open>None\<close> nor the empty list.\<close>

definition has_embedding :: "MemoryNode \<Rightarrow> bool" where
  "has_embedding m = (case embedding m of None \<Rightarrow> False | Some v \<Rightarrow> v \<noteq> [])"

definition metadata_of :: "MemoryNode \<Rightarrow> (string \<times> string) list" where
  "metadata_of m =
     [(''user_id'', user_id m),
      (''memory_type'', MemoryType_value (memory_type m)),
      (''timestamp'', isoformat (timestamp m)),
      (''is_hive_mind'', str_bool (is_hive_mind m)),
      (''tags'', if tags m \<noteq> [] then join '','' (tags m) else '''')]"

definition chroma_entry_of :: "MemoryNode \<Rightarrow> chroma_entry" where
  "chroma_entry_of m =
     \<lparr>ce_id = memory_id m,
      ce_embedding = (case embedding m of None \<Rightarrow> [] | Some v \<Rightarrow> v),
      ce_metadata = metadata_of m, ce_document = content m\<rparr>"

text \<open>
  MongoDB keeps a datetime as whole milliseconds: pymongo encodes it with
  \<open>microsecond // 1000\<close>, so a document holds, and is read back with, every
  datetime cut to a multiple of 1000 microseconds. All other fields are kept as written.
\<close>

fun bson_datetime :: "datetime \<Rightarrow> datetime" where
  "bson_datetime (y, mo, d, h, mi, s, us) = (y, mo, d, h, mi, s, (us div 1000) * 1000)"

definition bson_memory :: "MemoryNode \<Rightarrow> MemoryNode" where
  "bson_memory m = m\<lparr>timestamp := bson_datetime (timestamp m)\<rparr>"

definition bson_identity :: "UserIdentity \<Rightarrow> UserIdentity" where
  "bson_identity i =
     i\<lparr>ui_created_at := bson_datetime (ui_created_at i),
       ui_updated_at := bson_datetime (ui_updated_at i)\<rparr>"

text \<open>
  \<open>MemoryStorage.save_memory\<close>: the document write, then the vector upsert when the
  record has an embedding; the metadata of the index entry is built from the record as
  passed. The \<open>except\<close> clause logs and re-raises, so either failure is the
  result of the call; a failure of the upsert leaves the document written.
\<close>

definition save_memory :: "MemoryStorage \<Rightarrow> MemoryNode \<Rightarrow> MemoryStorage \<times> (error + string)" where
  "save_memory st memory =
     (case backend_call st of
        (True, st1) \<Rightarrow> (st1, Inl BackendError)
      | (False, st1) \<Rightarrow>
          let st2 = st1\<lparr>memory_collection :=
                          replace_one memory_id (bson_memory memory) (memory_collection st1)\<rparr>
          in if has_embedding memory then
               (case backend_call st2 of
                  (True, st3) \<Rightarrow> (st3, Inl BackendError)
                | (False, st3) \<Rightarrow>
                    (st3\<lparr>chroma_collection :=
                           replace_one ce_id (chroma_entry_of memory) (chroma_collection st3)\<rparr>,
                     Inr (memory_id memory)))
             else (st2, Inr (memory_id memory)))"


text \<open>\<open>get_user_identity\<close>: any failure is logged and answered with \<open>None\<close>.\<close>

definition get_user_identity :: "MemoryStorage \<Rightarrow> string \<Rightarrow> MemoryStorage \<times> UserIdentity option" where
  "get_user_identity st uid =
     (case backend_call st of
        (True, st1) \<Rightarrow> (st1, None)
      | (False, st1) \<Rightarrow> (st1, find_one ui_user_id uid (identity_collection st1)))"

text \<open>
  \<open>update_user_identity\<close>; \<open>now\<close> is what \<open>datetime.utcnow()\<close> returns in
  the call. A failure is logged and answered with \<open>False\<close>.
\<close>

definition update_user_identity :: "MemoryStorage \<Rightarrow> datetime \<Rightarrow> UserIdentity \<Rightarrow> MemoryStorage \<times> bool" where
  "update_user_identity st now identity =
     (case backend_call st of
        (True, st1) \<Rightarrow> (st1, False)
      | (False, st1) \<Rightarrow>
          (st1\<lparr>identity_collection :=
                 replace_one ui_user_id (bson_identity (identity\<lparr>ui_updated_at := now\<rparr>))
                   (identity_collection st1)\<rparr>,
           True))"

subsection \<open>The metadata filter of the vector search\<close>

datatype where_clause =
  Field string string | W_and "where_clause list" | W_or "where_clause list"

fun matches :: "(string \<times> string) list \<Rightarrow> where_clause \<Rightarrow> bool" where
  "matches md (Field k v) = (map_of md k = Some v)"
| "matches md (W_and cs) = (\<forall>c \<in> set cs. matches md c)"
| "matches md (W_or cs) = (\<exists>c \<in> set cs. matches md c)"

text \<open>
  Lines 119 to 161 of \<open>search_memories\<close>. \<open>user_id\<close> is \<open>Optional[str]\<close>, and
  \<open>if user_id\<close> is false for \<open>None\<close> and for the empty string alike.
\<close>

definition scope_clause :: "string option \<Rightarrow> bool \<Rightarrow> where_clause" where
  "scope_clause uid hive =
     (case uid of
        None \<Rightarrow> Field ''is_hive_mind'' (str_bool hive)
      | Some u \<Rightarrow>
          if u \<noteq> [] \<and> \<not> hive
          then W_and [Field ''is_hive_mind'' (str_bool hive), Field ''user_id'' u]
          else Field ''is_hive_mind'' (str_bool hive))"

definition add_condition :: "where_clause \<Rightarrow> where_clause \<Rightarrow> where_clause" where
  "add_condition w c = (case w of W_and cs \<Rightarrow> W_and (cs @ [c]) | _ \<Rightarrow> W_and [w, c])"

definition where_clause_of :: "string option \<Rightarrow> bool \<Rightarrow> MemoryType list option \<Rightarrow> where_clause" where
  "where_clause_of uid hive memory_types =
     (case memory_types of
        None \<Rightarrow> scope_clause uid hive
      | Some [] \<Rightarrow> scope_clause uid hive
      | Some [mt] \<Rightarrow> add_condition (scope_clause uid hive) (Field ''memory_type'' (MemoryType_value mt))
      | Some mts \<Rightarrow>
          add_condition (scope_clause uid hive)
            (W_or (map (\<lambda>mt. Field ''memory_type'' (MemoryType_value mt)) mts)))"

text \<open>
  \<open>chroma_collection.query\<close>: the ids of the \<open>n\<close> entries nearest to the query
  vector among those whose metadata satisfy the filter. ChromaDB rejects a request
  for no or negatively many results.
\<close>

definition chroma_query ::
  "(real list \<Rightarrow> real list \<Rightarrow> real) \<Rightarrow> chroma_entry list \<Rightarrow> real list \<Rightarrow> int \<Rightarrow> where_clause
     \<Rightarrow> error + string list" where
  "chroma_query distance coll q n w =
     (if n \<le> 0 then Inl ValueError
      else Inr (map ce_id (take (nat n)
             (sort_key (\<lambda>e. distance q (ce_embedding e))
                (filter (\<lambda>e. matches (ce_metadata e) w) coll)))))"

text \<open>
  \<open>memories.sort(key=lambda m: m.recency_value, reverse=True)\<close>: stable, so records
  of equal recency keep the order the document store returned them in.
\<close>

definition sort_by_recency :: "MemoryNode list \<Rightarrow> MemoryNode list" where
  "sort_by_recency ms = sort_key (\<lambda>m. - recency_value m) ms"

text \<open>
  Lines 180 to 188: \<open>find({"_id": {"$in": memory_ids}})\<close> returns the matching
  documents in the collection's order, and the list is then sorted by recency.
\<close>

definition hydrate :: "MemoryNode list \<Rightarrow> string list \<Rightarrow> MemoryNode list" where
  "hydrate docs memory_ids = sort_by_recency (filter (\<lambda>d. memory_id d \<in> set memory_ids) docs)"

definition search_memories_body ::
  "MemoryStorage \<Rightarrow> real list \<Rightarrow> string option \<Rightarrow> bool \<Rightarrow> int \<Rightarrow> MemoryType list option
     \<Rightarrow> MemoryStorage \<times> (error + MemoryNode list)" where
  "search_memories_body st query_embedding uid hive limit memory_types =
     (let where_clause = where_clause_of uid hive memory_types
      in case backend_call st of
           (True, st1) \<Rightarrow> (st1, Inl BackendError)
         | (False, st1) \<Rightarrow>
             (case chroma_query (chroma_distance st1) (chroma_collection st1)
                     query_embedding limit where_clause of
                Inl e \<Rightarrow> (st1, Inl e)
              | Inr memory_ids \<Rightarrow>
                  if memory_ids = [] then (st1, Inr [])
                  else (case backend_call st1 of
                          (True, st2) \<Rightarrow> (st2, Inl BackendError)
                        | (False, st2) \<Rightarrow>
                            (st2, Inr (hydrate (memory_collection st2) memory_ids)))))"

text \<open>\<open>search_memories\<close>: the body under its \<open>except Exception: return []\<close>.\<close>

definition search_memories ::
  "MemoryStorage \<Rightarrow> real list \<Rightarrow> string option \<Rightarrow> bool \<Rightarrow> int \<Rightarrow> MemoryType list option
     \<Rightarrow> MemoryStorage \<times> MemoryNode list" where
  "search_memories st query_embedding uid hive limit memory_types =
     (case search_memories_body st query_embedding uid hive limit memory_types of
        (st', Inl e) \<Rightarrow> (st', [])
      | (st', Inr memories) \<Rightarrow> (st', memories))"

text \<open>
  The MongoDB query of \<open>get_recent_memories\<close>, its sort by \<open>timestamp\<close>
  descending and its \<open>limit\<close>: pymongo reads a limit of 0 as no limit and a
  negative one as its absolute value. MongoDB leaves the order of documents of equal
  timestamp open; here they come in the reverse of the collection's order.
\<close>

definition recent_query :: "string option \<Rightarrow> bool \<Rightarrow> MemoryNode \<Rightarrow> bool" where
  "recent_query uid hive d =
     (is_hive_mind d = hive \<and>
      (case uid of None \<Rightarrow> True | Some u \<Rightarrow> if u \<noteq> [] \<and> \<not> hive then user_id d = u else True))"

definition mongo_limit :: "int \<Rightarrow> 'a list \<Rightarrow> 'a list" where
  "mongo_limit n xs = (if n = 0 then xs else take (nat \<bar>n\<bar>) xs)"

definition get_recent_memories_body ::
  "MemoryStorage \<Rightarrow> string option \<Rightarrow> bool \<Rightarrow> int \<Rightarrow> MemoryStorage \<times> (error + MemoryNode list)" where
  "get_recent_memories_body st uid hive limit =
     (case backend_call st of
        (True, st1) \<Rightarrow> (st1, Inl BackendError)
      | (False, st1) \<Rightarrow>
          (st1, Inr (mongo_limit limit
             (rev (sort_key timestamp (filter (recent_query uid hive) (memory_collection st1)))))))"

definition get_recent_memories ::
  "MemoryStorage \<Rightarrow> string option \<Rightarrow> bool \<Rightarrow> int \<Rightarrow> MemoryStorage \<times> MemoryNode list" where
  "get_recent_memories st uid hive limit =
     (case get_recent_memories_body st uid hive limit of
        (st', Inl e) \<Rightarrow> (st', [])
      | (st', Inr memories) \<Rightarrow> (st', memories))"

section \<open>The memory updater (src/agents/shiva.py)\<close>

text \<open>
  A \<open>ShivaAgent\<close>: the extraction model and the embedding model are \<open>None\<close>
  when the configuration disables them; each is a function from its input text to its
  answer or the error it raises. The storage is passed to the operations as state.
\<close>

record ShivaAgent =
  extraction_llm :: "(string \<Rightarrow> error + string) option"
  embeddings :: "(string \<Rightarrow> error + real list) option"
  memory_types :: "string list"

text \<open>
  A conversation is the dict \<open>BrahmaInterface.generate_response\<close> builds, with its
  string entries; a signal is a dict with any values. Strings are lists of characters,
  and the answer of the extraction model is its text.
\<close>

type_synonym conversation = "(string \<times> string) list"
type_synonym signal = "(string \<times> pyval) list"

definition get_str :: "conversation \<Rightarrow> string \<Rightarrow> string" where
  "get_str conversation k = (case map_of conversation k of None \<Rightarrow> [] | Some v \<Rightarrow> v)"

definition nl :: string where
  "nl = [CHR 0x0A]"

definition dq :: string where
  "dq = [CHR 0x22]"

definition exchange_text :: "conversation \<Rightarrow> string" where
  "exchange_text conversation =
     ''User: '' @ get_str conversation ''user_message'' @ nl
       @ ''Assistant: '' @ get_str conversation ''assistant_response''"

definition extraction_prompt :: "string list \<Rightarrow> string \<Rightarrow> string \<Rightarrow> string" where
  "extraction_prompt types user_message assistant_response =
     join nl
      [''Analyze the following conversation and extract important memory signals that should be remembered for future interactions.'',
       [],
       ''User Message: '' @ user_message,
       [],
       ''Assistant Response: '' @ assistant_response,
       [],
       ''Extract 1-3 key memory signals. For each signal, provide:'',
       ''1. A concise summary (1-2 sentences)'',
       ''2. Memory type: one of '' @ join '', '' types,
       ''3. Relevant tags (comma-separated)'',
       [],
       ''Format as JSON array:'',
       ''['',
       ''  {'',
       ''    '' @ dq @ ''content'' @ dq @ '': '' @ dq @ ''memory summary'' @ dq @ '','',
       ''    '' @ dq @ ''memory_type'' @ dq @ '': '' @ dq @ ''memory_type'' @ dq @ '','',
       ''    '' @ dq @ ''tags'' @ dq @ '': ['' @ dq @ ''tag1'' @ dq @ '', '' @ dq @ ''tag2'' @ dq @ '']'',
       ''  }'',
       '']'',
       [],
       ''Only extract memories that are:'',
       ''- About the user'' @ [CHR 0x27] @ ''s identity, preferences, or important facts'',
       ''- Emotionally significant'',
       ''- Relevant for future conversations'',
       ''- Not already obvious from the conversation'',
       [],
       ''JSON:'']"

text \<open>\<open>str.find\<close> and \<open>str.rfind\<close> for one character: an index, or -1.\<close>

fun str_find :: "char \<Rightarrow> string \<Rightarrow> int" where
  "str_find c [] = - 1"
| "str_find c (x # xs) =
     (if x = c then 0 else (let r = str_find c xs in if r < 0 then - 1 else r + 1))"

definition str_rfind :: "char \<Rightarrow> string \<Rightarrow> int" where
  "str_rfind c s =
     (let r = str_find c (rev s) in if r < 0 then - 1 else int (length s) - 1 - r)"

text \<open>\<open>s[i:j]\<close> for \<open>0 \<le> i\<close> and \<open>0 \<le> j\<close>.\<close>

definition slice :: "string \<Rightarrow> int \<Rightarrow> int \<Rightarrow> string" where
  "slice s i j = take (nat (j - i)) (drop (nat i) s)"

text \<open>
  Lines 158 to 169: the text between the first \<open>[\<close> and the last \<open>]\<close> goes to
  \<open>json.loads\<close>, a parameter here. A \<open>JSONDecodeError\<close> and a missing array both
  give the empty list of signals; any other error leaves the inner \<open>try\<close>.
\<close>

definition parse_signals :: "(string \<Rightarrow> error + pyval) \<Rightarrow> string \<Rightarrow> error + pyval" where
  "parse_signals json_loads response_text =
     (let start_idx = str_find CHR ''['' response_text;
          end_idx = str_rfind CHR '']'' response_text + 1
      in if start_idx \<ge> 0 \<and> end_idx > start_idx then
           (case json_loads (slice response_text start_idx end_idx) of
              Inl JSONDecodeError \<Rightarrow> Inr (PList [])
            | Inl e \<Rightarrow> Inl e
            | Inr signals \<Rightarrow> Inr signals)
         else Inr (PList []))"

text \<open>What \<open>for signal in signals\<close> iterates over, by the type of \<open>signals\<close>.\<close>

fun iterate :: "pyval \<Rightarrow> error + pyval list" where
  "iterate (PList xs) = Inr xs"
| "iterate (PDict kvs) = Inr (map (\<lambda>kv. PStr (fst kv)) kvs)"
| "iterate (PStr s) = Inr (map (\<lambda>c. PStr [c]) s)"
| "iterate _ = Inl TypeError"

text \<open>Lines 172 to 179: a dict with a \<open>content\<close> key is kept, normalised.\<close>

fun validate_signals :: "pyval list \<Rightarrow> signal list" where
  "validate_signals [] = []"
| "validate_signals (PDict kvs # rest) =
     (case map_of kvs ''content'' of
        None \<Rightarrow> validate_signals rest
      | Some c \<Rightarrow>
          [(''content'', c),
           (''memory_type'', case map_of kvs ''memory_type'' of None \<Rightarrow> PStr ''factual'' | Some t \<Rightarrow> t),
           (''tags'', case map_of kvs ''tags'' of Some (PList ts) \<Rightarrow> PList ts | _ \<Rightarrow> PList [])]
          # validate_signals rest)"
| "validate_signals (_ # rest) = validate_signals rest"

text \<open>The test of line 174 on its own: \<open>isinstance(signal, dict) and "content" in signal\<close>.\<close>

fun has_content :: "pyval \<Rightarrow> bool" where
  "has_content (PDict kvs) = (map_of kvs ''content'' \<noteq> None)"
| "has_content _ = False"

definition extract_memory_signals_body ::
  "(string \<Rightarrow> error + string) \<Rightarrow> string list \<Rightarrow> (string \<Rightarrow> error + pyval) \<Rightarrow> conversation
     \<Rightarrow> error + signal list" where
  "extract_memory_signals_body llm types json_loads conversation =
     (let user_message = get_str conversation ''user_message'';
          assistant_response = get_str conversation ''assistant_response''
      in case llm (extraction_prompt types user_message assistant_response) of
           Inl e \<Rightarrow> Inl e
         | Inr response_text \<Rightarrow>
             (case parse_signals json_loads response_text of
                Inl e \<Rightarrow> Inl e
              | Inr signals \<Rightarrow>
                  (case iterate signals of
                     Inl e \<Rightarrow> Inl e
                   | Inr items \<Rightarrow> Inr (validate_signals items))))"

text \<open>
  \<open>_extract_memory_signals\<close>: the raw exchange when extraction is disabled, the
  validated signals otherwise, and a one-line summary signal when the body raises.
\<close>

definition extract_memory_signals ::
  "ShivaAgent \<Rightarrow> (string \<Rightarrow> error + pyval) \<Rightarrow> conversation \<Rightarrow> UserIdentity option \<Rightarrow> signal list" where
  "extract_memory_signals agent json_loads conversation user_identity =
     (case extraction_llm agent of
        None \<Rightarrow>
          [[(''content'', PStr (exchange_text conversation)),
            (''memory_type'', PStr (MemoryType_value FACTUAL)),
            (''tags'', PList [])]]
      | Some llm \<Rightarrow>
          (case extract_memory_signals_body llm (memory_types agent) json_loads conversation of
             Inr validated_signals \<Rightarrow> validated_signals
           | Inl e \<Rightarrow>
               [[(''content'',
                   PStr (''Conversation about: '' @ take 100 (get_str conversation ''user_message''))),
                 (''memory_type'', PStr (MemoryType_value FACTUAL)),
                 (''tags'', PList [])]]))"

text \<open>\<open>MemoryType(x)\<close>: \<open>None\<close> stands for the \<open>ValueError\<close>.\<close>

fun MemoryType_of :: "pyval \<Rightarrow> MemoryType option" where
  "MemoryType_of (PStr s) =
     (if s = ''personal_identity'' then Some PERSONAL_IDENTITY
      else if s = ''preference'' then Some PREFERENCE
      else if s = ''factual'' then Some FACTUAL
      else if s = ''emotional_state'' then Some EMOTIONAL_STATE
      else None)"
| "MemoryType_of _ = None"

text \<open>What pydantic accepts for the field \<open>tags: List[str]\<close>.\<close>

fun str_list :: "pyval list \<Rightarrow> string list option" where
  "str_list [] = Some []"
| "str_list (PStr s # rest) = (case str_list rest of None \<Rightarrow> None | Some ss \<Rightarrow> Some (s # ss))"
| "str_list (_ # rest) = None"

text \<open>
  \<open>_create_memory_node\<close>; \<open>new_id\<close> and \<open>now\<close> are what \<open>uuid.uuid4()\<close> and
  \<open>datetime.utcnow()\<close> return in the call. A missing \<open>content\<close> key and a field
  value that pydantic rejects both end in \<open>return None\<close>; a failure of the embedding
  model only leaves \<open>embedding\<close> at \<open>None\<close>.
\<close>

definition create_memory_node ::
  "ShivaAgent \<Rightarrow> string \<Rightarrow> signal \<Rightarrow> conversation \<Rightarrow> string \<Rightarrow> datetime \<Rightarrow> MemoryNode option" where
  "create_memory_node agent uid signal conversation new_id now =
     (let emb =
            (case embeddings agent of
               None \<Rightarrow> None
             | Some embed_query \<Rightarrow>
                 (case map_of signal ''content'' of
                    Some (PStr s) \<Rightarrow> (case embed_query s of Inl e \<Rightarrow> None | Inr v \<Rightarrow> Some v)
                  | _ \<Rightarrow> None));
          memory_type_str =
            (case map_of signal ''memory_type'' of
               None \<Rightarrow> PStr (MemoryType_value FACTUAL)
             | Some t \<Rightarrow> t);
          mtype = (case MemoryType_of memory_type_str of None \<Rightarrow> FACTUAL | Some t \<Rightarrow> t)
      in case map_of signal ''content'' of
           Some (PStr c) \<Rightarrow>
             (case (case map_of signal ''tags'' of
                      None \<Rightarrow> Some []
                    | Some (PList ts) \<Rightarrow> str_list ts
                    | Some _ \<Rightarrow> None) of
                None \<Rightarrow> None
              | Some tgs \<Rightarrow>
                  Some \<lparr>memory_id = new_id, user_id = uid, content = c, memory_type = mtype,
                        timestamp = now, tags = tgs, recency_value = 1, source = ''conversation'',
                        embedding = emb,
                        conversation_context = Some (exchange_text conversation),
                        system_prompt_snippet = Some (take 500 (get_str conversation ''system_prompt'')),
                        is_hive_mind = False\<rparr>)
         | _ \<Rightarrow> None)"

text \<open>
  The loop of \<open>process\<close>; \<open>fresh i\<close> is the id and the time drawn for the signal at
  position \<open>i\<close>. The first \<open>save_memory\<close> that raises ends the loop with its error.
\<close>

fun save_signals ::
  "ShivaAgent \<Rightarrow> string \<Rightarrow> conversation \<Rightarrow> (nat \<Rightarrow> string \<times> datetime) \<Rightarrow> nat \<Rightarrow> MemoryStorage
     \<Rightarrow> signal list \<Rightarrow> string list \<Rightarrow> MemoryStorage \<times> (error + string list)" where
  "save_signals agent uid conversation fresh i st [] memory_ids = (st, Inr memory_ids)"
| "save_signals agent uid conversation fresh i st (signal # rest) memory_ids =
     (case create_memory_node agent uid signal conversation (fst (fresh i)) (snd (fresh i)) of
        None \<Rightarrow> save_signals agent uid conversation fresh (Suc i) st rest memory_ids
      | Some memory_node \<Rightarrow>
          (case save_memory st memory_node of
             (st', Inl e) \<Rightarrow> (st', Inl e)
           | (st', Inr mid) \<Rightarrow>
               save_signals agent uid conversation fresh (Suc i) st' rest (memory_ids @ [mid])))"

definition process_body ::
  "ShivaAgent \<Rightarrow> (string \<Rightarrow> error + pyval) \<Rightarrow> (nat \<Rightarrow> string \<times> datetime) \<Rightarrow> datetime \<Rightarrow> MemoryStorage
     \<Rightarrow> string \<Rightarrow> conversation \<Rightarrow> UserIdentity option \<Rightarrow> MemoryStorage \<times> (error + string list)" where
  "process_body agent json_loads fresh now st uid full_conversation user_identity =
     (case save_signals agent uid full_conversation fresh 0 st
             (extract_memory_signals agent json_loads full_conversation user_identity) [] of
        (st1, Inl e) \<Rightarrow> (st1, Inl e)
      | (st1, Inr memory_ids) \<Rightarrow>
          (case user_identity of
             None \<Rightarrow> (st1, Inr memory_ids)
           | Some identity \<Rightarrow> (fst (update_user_identity st1 now identity), Inr memory_ids)))"

text \<open>\<open>ShivaAgent.process\<close>: the body under its \<open>except Exception: return []\<close>.\<close>

definition process ::
  "ShivaAgent \<Rightarrow> (string \<Rightarrow> error + pyval) \<Rightarrow> (nat \<Rightarrow> string \<times> datetime) \<Rightarrow> datetime \<Rightarrow> MemoryStorage
     \<Rightarrow> string \<Rightarrow> conversation \<Rightarrow> UserIdentity option \<Rightarrow> MemoryStorage \<times> string list" where
  "process agent json_loads fresh now st uid full_conversation user_identity =
     (case process_body agent json_loads fresh now st uid full_conversation user_identity of
        (st', Inl e) \<Rightarrow> (st', [])
      | (st', Inr memory_ids) \<Rightarrow> (st', memory_ids))"

text \<open>
  \<open>create_hive_mind_memory\<close>: here the call of the embedding model stands directly
  in the outer \<open>try\<close>, so its failure ends the operation with \<open>None\<close>.
\<close>

definition create_hive_mind_memory ::
  "ShivaAgent \<Rightarrow> MemoryStorage \<Rightarrow> string \<Rightarrow> string \<Rightarrow> MemoryType \<Rightarrow> string list option \<Rightarrow> string
     \<Rightarrow> datetime \<Rightarrow> MemoryStorage \<times> string option" where
  "create_hive_mind_memory agent st uid content_text mtype tgs new_id now =
     (case (case embeddings agent of
              None \<Rightarrow> Inr None
            | Some embed_query \<Rightarrow> (case embed_query content_text of Inl e \<Rightarrow> Inl e | Inr v \<Rightarrow> Inr (Some v))) of
        Inl e \<Rightarrow> (st, None)
      | Inr emb \<Rightarrow>
          (case save_memory st
                  \<lparr>memory_id = new_id, user_id = uid, content = content_text, memory_type = mtype,
                   timestamp = now, tags = (case tgs of None \<Rightarrow> [] | Some ts \<Rightarrow> ts),
                   recency_value = 1, source = ''hive_mind'', embedding = emb,
                   conversation_context = None, system_prompt_snippet = None,
                   is_hive_mind = True\<rparr> of
             (st', Inl e) \<Rightarrow> (st', None)
           | (st', Inr mid) \<Rightarrow> (st', Some mid)))"

section \<open>Relating the vector index to the document store\<close>

text \<open>
  The vector index agrees with the document store when every index entry carries the
  owner and the hive-mind flag of the document stored under the same id; the other
  metadata (type, timestamp, tags) play no part in it.
  \<open>unique_ids\<close> is MongoDB's guarantee of one document per \<open>_id\<close>.
\<close>

definition index_consistent :: "MemoryStorage \<Rightarrow> bool" where
  "index_consistent st =
     (\<forall>e \<in> set (chroma_collection st). \<forall>d \<in> set (memory_collection st).
        memory_id d = ce_id e \<longrightarrow>
          map_of (ce_metadata e) ''user_id'' = Some (user_id d)
          \<and> map_of (ce_metadata e) ''is_hive_mind'' = Some (str_bool (is_hive_mind d)))"

definition unique_ids :: "MemoryStorage \<Rightarrow> bool" where
  "unique_ids st = distinct (map memory_id (memory_collection st))"

section \<open>A run of the memory update, told by its backend outcomes\<close>

text \<open>
  The records a run builds, in order: the signal at position \<open>i\<close> gives a record
  or none, whatever the storage does.
\<close>

definition built_nodes ::
  "ShivaAgent \<Rightarrow> string \<Rightarrow> conversation \<Rightarrow> (nat \<Rightarrow> string \<times> datetime) \<Rightarrow> signal list
     \<Rightarrow> MemoryNode list" where
  "built_nodes agent uid conversation fresh signals =
     List.map_filter
       (\<lambda>p. create_memory_node agent uid (snd p) conversation (fst (fresh (fst p)))
              (snd (fresh (fst p))))
       (enumerate 0 signals)"

text \<open>
  A save that succeeds makes one backend call, and a second one when the record has an
  embedding. \<open>some_save_raises f ms\<close>: saving the records \<open>ms\<close> one after the
  other against the outcomes \<open>f\<close>, some save meets a call that raises.
\<close>

definition save_calls :: "MemoryNode \<Rightarrow> nat" where
  "save_calls m = (if has_embedding m then 2 else 1)"

fun some_save_raises :: "(nat \<Rightarrow> bool) \<Rightarrow> MemoryNode list \<Rightarrow> bool" where
  "some_save_raises f [] = False"
| "some_save_raises f (m # ms) =
     (f 0 \<or> (has_embedding m \<and> f 1) \<or> some_save_raises (\<lambda>n. f (n + save_calls m)) ms)"

section \<open>Concrete data\<close>

definition no_faults :: "nat \<Rightarrow> bool" where
  "no_faults n = False"

definition second_fails :: "nat \<Rightarrow> bool" where
  "second_fails n = (n = 1)"

definition all_fail :: "nat \<Rightarrow> bool" where
  "all_fail n = True"

definition l1_distance :: "real list \<Rightarrow> real list \<Rightarrow> real" where
  "l1_distance q v = sum_list (map (\<lambda>p. \<bar>fst p - snd p\<bar>) (zip q v))"

definition empty_storage :: "(nat \<Rightarrow> bool) \<Rightarrow> MemoryStorage" where
  "empty_storage f =
     \<lparr>memory_collection = [], identity_collection = [], chroma_collection = [],
      chroma_distance = l1_distance, faults = f\<rparr>"

definition day1 :: datetime where
  "day1 = (2024, 1, 1, 9, 0, 0, 0)"

definition day2 :: datetime where
  "day2 = (2024, 1, 2, 9, 0, 0, 0)"

definition personal_memory :: "string \<Rightarrow> string \<Rightarrow> real list option \<Rightarrow> MemoryNode" where
  "personal_memory mid owner emb =
     \<lparr>memory_id = mid, user_id = owner, content = ''likes tea'', memory_type = PREFERENCE,
      timestamp = day1, tags = [], recency_value = 1, source = ''conversation'',
      embedding = emb, conversation_context = None, system_prompt_snippet = None,
      is_hive_mind = False\<rparr>"

definition mem_a :: MemoryNode where
  "mem_a = personal_memory ''m1'' ''A'' (Some [1, 0])"

definition mem_b :: MemoryNode where
  "mem_b = personal_memory ''m2'' ''B'' (Some [0, 1])"

definition mem_a_plain :: MemoryNode where
  "mem_a_plain = personal_memory ''m2'' ''A'' None"

definition storage_ab :: "(nat \<Rightarrow> bool) \<Rightarrow> MemoryStorage" where
  "storage_ab f =
     \<lparr>memory_collection = [mem_a, mem_b], identity_collection = [],
      chroma_collection = [chroma_entry_of mem_a, chroma_entry_of mem_b],
      chroma_distance = l1_distance, faults = f\<rparr>"

text \<open>
  The store after \<open>save_memory mem_b\<close> and then \<open>save_memory mem_a_plain\<close>, which
  has the id of \<open>mem_b\<close> and no embedding: the document is replaced, the index entry
  is not.
\<close>

definition storage_stale :: MemoryStorage where
  "storage_stale =
     fst (save_memory (fst (save_memory (empty_storage no_faults) mem_b)) mem_a_plain)"

definition embed_unit :: "string \<Rightarrow> error + real list" where
  "embed_unit s = Inr [1, 0]"

definition instant1 :: datetime where
  "instant1 = (2024, 1, 1, 9, 0, 0, 123456)"

definition instant2 :: datetime where
  "instant2 = (2024, 1, 2, 9, 0, 0, 654321)"

definition embed_down :: "string \<Rightarrow> error + real list" where
  "embed_down s = Inl ServiceError"

definition llm_prose :: "string \<Rightarrow> error + string" where
  "llm_prose prompt = Inr ''Nothing to remember here.''"

definition empty_content_response :: string where
  "empty_content_response = ''[{'' @ dq @ ''content'' @ dq @ '': '' @ dq @ dq @ ''}]''"

definition reply_empty_content :: string where
  "reply_empty_content = ''Here you are: '' @ empty_content_response"

definition llm_empty_content :: "string \<Rightarrow> error + string" where
  "llm_empty_content prompt = Inr reply_empty_content"

definition items_example :: "pyval list" where
  "items_example =
     [PStr ''likes tea'',
      PDict [(''content'', PStr ''likes tea''), (''memory_type'', PStr ''mood''),
             (''tags'', PStr ''tea,drinks'')],
      PDict [(''memory_type'', PStr ''preference'')],
      PDict [(''content'', PStr [])]]"

definition signal_mood :: signal where
  "signal_mood =
     [(''content'', PStr ''likes tea''), (''memory_type'', PStr ''mood''), (''tags'', PList [])]"

text \<open>What \<open>json.loads\<close> answers on the one array text used below.\<close>

definition loads_example :: "string \<Rightarrow> error + pyval" where
  "loads_example s =
     (if s = empty_content_response then Inr (PList [PDict [(''content'', PStr [])]])
      else Inl JSONDecodeError)"

definition agent_of ::
  "(string \<Rightarrow> error + string) option \<Rightarrow> (string \<Rightarrow> error + real list) option \<Rightarrow> ShivaAgent" where
  "agent_of llm emb =
     \<lparr>extraction_llm = llm, embeddings = emb,
      memory_types = [''personal_identity'', ''preference'', ''factual'', ''emotional_state'']\<rparr>"

definition exchange :: conversation where
  "exchange =
     [(''system_prompt'', ''You are Meera.''),
      (''user_message'', ''I moved to Bangalore.''),
      (''assistant_response'', ''How exciting!'')]"

definition fresh_ids :: "nat \<Rightarrow> string \<times> datetime" where
  "fresh_ids i = (replicate (Suc i) CHR ''u'', day2)"

definition identity_a :: UserIdentity where
  "identity_a =
     \<lparr>ui_user_id = ''A'', ui_name = Some ''Asha'', ui_age = None, ui_gender = None,
      ui_origin = None, ui_current_context = None, ui_primary_role = None,
      ui_personal_identity = [(''city'', PStr ''Bangalore'')], ui_professional_identity = [],
      ui_created_at = day1, ui_updated_at = day1\<rparr>"

definition identity_us :: UserIdentity where
  "identity_us = identity_a\<lparr>ui_created_at := instant1, ui_updated_at := instant1\<rparr>"

definition mem_faded :: MemoryNode where
  "mem_faded = (personal_memory ''m4'' ''A'' (Some [1, 0]))\<lparr>recency_value := 1 / 2\<rparr>"

definition mem_fresh :: MemoryNode where
  "mem_fresh = personal_memory ''m5'' ''A'' (Some [0, 1])"

definition storage_recency :: "(nat \<Rightarrow> bool) \<Rightarrow> MemoryStorage" where
  "storage_recency f =
     \<lparr>memory_collection = [mem_faded, mem_fresh], identity_collection = [],
      chroma_collection = [chroma_entry_of mem_faded, chroma_entry_of mem_fresh],
      chroma_distance = l1_distance, faults = f\<rparr>"

definition far_first :: "real list \<Rightarrow> real list \<Rightarrow> real" where
  "far_first q v = - l1_distance q v"

definition mem_shared :: MemoryNode where
  "mem_shared = (personal_memory ''m3'' ''A'' (Some [1, 1]))\<lparr>is_hive_mind := True\<rparr>"

definition storage_mixed :: "(nat \<Rightarrow> bool) \<Rightarrow> MemoryStorage" where
  "storage_mixed f =
     \<lparr>memory_collection = [mem_a, mem_shared], identity_collection = [],
      chroma_collection = [chroma_entry_of mem_a, chroma_entry_of mem_shared],
      chroma_distance = l1_distance, faults = f\<rparr>"

section \<open>Properties of the document and vector writes\<close>


lemma bson_memory_fields:
  "memory_id (bson_memory m) = memory_id m"
  "user_id (bson_memory m) = user_id m"
  "is_hive_mind (bson_memory m) = is_hive_mind m"
  "content (bson_memory m) = content m"
  by (simp_all add: bson_memory_def)

lemma bson_identity_user_id: "ui_user_id (bson_identity i) = ui_user_id i"
  by (simp add: bson_identity_def)

lemma find_one_replace_one:
  "find_one key (key doc) (replace_one key doc ds) = Some doc"
  by (induction ds) auto

subsection \<open>Saving a record\<close>


text \<open>
  C1, as the code has it: when the document write succeeds and the vector upsert fails,
  \<open>save_memory\<close> raises the backend's error to its caller instead of returning the
  id; the document stays written (as the document store keeps it, its timestamp in whole
  milliseconds) and the vector collection is unchanged.
\<close>


theorem save_memory_upsert_failure_raises:
  assumes "has_embedding memory" and "\<not> faults st 0" and "faults st 1"
  shows "snd (save_memory st memory) = Inl BackendError
    \<and> find_one memory_id (memory_id memory) (memory_collection (fst (save_memory st memory)))
        = Some (bson_memory memory)
    \<and> chroma_collection (fst (save_memory st memory)) = chroma_collection st"
  using assms find_one_replace_one [of memory_id "bson_memory memory"]
  by (simp add: save_memory_def backend_call_def Let_def bson_memory_fields)


theorem save_memory_upsert_failure_raises_witness:
  "has_embedding mem_a \<and> \<not> faults (empty_storage second_fails) 0
   \<and> faults (empty_storage second_fails) 1
   \<and> snd (save_memory (empty_storage second_fails) mem_a) = Inl BackendError
   \<and> find_one memory_id (memory_id mem_a)
        (memory_collection (fst (save_memory (empty_storage second_fails) mem_a))) = Some mem_a
   \<and> chroma_collection (fst (save_memory (empty_storage second_fails) mem_a))
        = chroma_collection (empty_storage second_fails)"
proof -
  have h: "has_embedding mem_a"
    by (simp add: has_embedding_def mem_a_def personal_memory_def)
  have f0: "\<not> faults (empty_storage second_fails) 0"
    by (simp add: empty_storage_def second_fails_def)
  have f1: "faults (empty_storage second_fails) 1"
    by (simp add: empty_storage_def second_fails_def)
  have b: "bson_memory mem_a = mem_a"
    by (simp add: bson_memory_def mem_a_def personal_memory_def day1_def)
  show ?thesis
    using save_memory_upsert_failure_raises [OF h f0 f1] h f0 f1 b by simp
qed

text \<open>
  C1 as the specification states it fails: the document of \<open>mem_a\<close> is written, the
  upsert of its vector fails, and the call does not return the record's id.
\<close>


theorem save_memory_best_effort_counterexample:
  "has_embedding mem_a \<and> \<not> second_fails 0 \<and> second_fails 1
     \<and> memory_collection (fst (save_memory (empty_storage second_fails) mem_a)) = [mem_a]
     \<and> snd (save_memory (empty_storage second_fails) mem_a) \<noteq> Inr (memory_id mem_a)"
  by (simp add: save_memory_def backend_call_def has_embedding_def mem_a_def personal_memory_def
        second_fails_def empty_storage_def bson_memory_def day1_def)

subsection \<open>Results of the read operations\<close>

lemma search_memories_body_result:
  "snd (search_memories_body st q uid hive limit mts) =
     (if faults st 0 then Inl BackendError
      else case chroma_query (chroma_distance st) (chroma_collection st) q limit
                  (where_clause_of uid hive mts) of
             Inl e \<Rightarrow> Inl e
           | Inr ids \<Rightarrow>
               if ids = [] then Inr []
               else if faults st 1 then Inl BackendError
               else Inr (hydrate (memory_collection st) ids))"
  by (simp add: search_memories_body_def backend_call_def Let_def
        split: sum.splits bool.splits)

lemma search_memories_result:
  "snd (search_memories st q uid hive limit mts) =
     (case snd (search_memories_body st q uid hive limit mts) of Inl e \<Rightarrow> [] | Inr ms \<Rightarrow> ms)"
  by (simp add: search_memories_def split: prod.splits sum.splits)

lemma get_recent_memories_result:
  "snd (get_recent_memories st uid hive limit) =
     (if faults st 0 then []
      else mongo_limit limit
             (rev (sort_key timestamp (filter (recent_query uid hive) (memory_collection st)))))"
  by (simp add: get_recent_memories_def get_recent_memories_body_def backend_call_def
        split: bool.splits)

text \<open>
  C5: a failure of either backend call of \<open>search_memories\<close> (the vector query, the
  document lookup), and any error at all in its body, gives the empty list; the result
  type has no error, so nothing reaches the caller.
\<close>

theorem search_memories_fails_soft:
  "(faults st 0 \<or> faults st 1 \<longrightarrow> snd (search_memories st q uid hive limit mts) = [])
   \<and> (\<forall>e. snd (search_memories_body st q uid hive limit mts) = Inl e
          \<longrightarrow> snd (search_memories st q uid hive limit mts) = [])"
  by (simp add: search_memories_result search_memories_body_result split: sum.splits)

text \<open>
  The theorem at work: the same query answers \<open>mem_a\<close> on healthy backends and
  the empty list when the document lookup fails.
\<close>

theorem search_memories_fails_soft_witness:
  "(faults (storage_ab second_fails) 0 \<or> faults (storage_ab second_fails) 1)
   \<and> snd (search_memories_body (storage_ab second_fails) [1, 0] (Some ''A'') False 3 None)
       = Inl BackendError
   \<and> snd (search_memories (storage_ab second_fails) [1, 0] (Some ''A'') False 3 None) = []
   \<and> snd (search_memories (storage_ab no_faults) [1, 0] (Some ''A'') False 3 None) = [mem_a]"
proof -
  have f: "faults (storage_ab second_fails) 0 \<or> faults (storage_ab second_fails) 1"
    by (simp add: storage_ab_def second_fails_def)
  have b: "snd (search_memories_body (storage_ab second_fails) [1, 0] (Some ''A'') False 3 None)
       = Inl BackendError"
    by (simp add: search_memories_body_result storage_ab_def second_fails_def chroma_query_def
          where_clause_of_def scope_clause_def chroma_entry_of_def metadata_of_def mem_a_def
          mem_b_def personal_memory_def str_bool_def l1_distance_def)
  have g: "snd (search_memories (storage_ab no_faults) [1, 0] (Some ''A'') False 3 None) = [mem_a]"
    by (simp add: search_memories_result search_memories_body_result storage_ab_def no_faults_def
          chroma_query_def where_clause_of_def scope_clause_def chroma_entry_of_def metadata_of_def
          mem_a_def mem_b_def personal_memory_def str_bool_def l1_distance_def hydrate_def
          sort_by_recency_def)
  from search_memories_fails_soft [of "storage_ab second_fails" "[1, 0]" "Some ''A''" False 3 None]
    f b g
  show ?thesis by simp
qed

subsection \<open>The identity profile\<close>

lemma replace_one_twice:
  "key d2 = key d1 \<Longrightarrow> replace_one key d2 (replace_one key d1 ds) = replace_one key d2 ds"
  by (induction ds) auto


text \<open>
  C7, as the code has it: an accepted \<open>update_user_identity\<close> stores the identity
  as supplied, except that \<open>updated_at\<close> is the time of the call, whatever the caller
  had put there, and that the document store keeps \<open>updated_at\<close> and
  \<open>created_at\<close> in whole milliseconds. A second call with the same content leaves
  the collection as a single call made at the second time would, so the two stored
  identities differ in \<open>updated_at\<close> only.
\<close>


theorem update_user_identity_idempotent:
  assumes "\<not> faults st 0" and "\<not> faults st 1"
  shows "snd (update_user_identity st now1 identity)
    \<and> snd (update_user_identity (fst (update_user_identity st now1 identity)) now2 identity)
    \<and> find_one ui_user_id (ui_user_id identity)
         (identity_collection (fst (update_user_identity st now1 identity)))
        = Some (identity\<lparr>ui_created_at := bson_datetime (ui_created_at identity),
                           ui_updated_at := bson_datetime now1\<rparr>)
    \<and> find_one ui_user_id (ui_user_id identity)
         (identity_collection
            (fst (update_user_identity (fst (update_user_identity st now1 identity)) now2 identity)))
        = Some (identity\<lparr>ui_created_at := bson_datetime (ui_created_at identity),
                           ui_updated_at := bson_datetime now2\<rparr>)
    \<and> identity_collection
         (fst (update_user_identity (fst (update_user_identity st now1 identity)) now2 identity))
        = identity_collection (fst (update_user_identity st now2 identity))"
proof -
  let ?d1 = "bson_identity (identity\<lparr>ui_updated_at := now1\<rparr>)"
  let ?d2 = "bson_identity (identity\<lparr>ui_updated_at := now2\<rparr>)"
  have k: "ui_user_id ?d1 = ui_user_id identity" "ui_user_id ?d2 = ui_user_id identity"
    by (simp_all add: bson_identity_user_id)
  have v: "?d1 = identity\<lparr>ui_created_at := bson_datetime (ui_created_at identity),
                           ui_updated_at := bson_datetime now1\<rparr>"
    "?d2 = identity\<lparr>ui_created_at := bson_datetime (ui_created_at identity),
                           ui_updated_at := bson_datetime now2\<rparr>"
    by (simp_all add: bson_identity_def)
  have c1: "identity_collection (fst (update_user_identity st now1 identity))
      = replace_one ui_user_id ?d1 (identity_collection st)"
    and f1: "faults (fst (update_user_identity st now1 identity)) 0 = faults st 1"
    and o1: "snd (update_user_identity st now1 identity)"
    using assms(1) by (simp_all add: update_user_identity_def backend_call_def)
  have c2: "identity_collection
      (fst (update_user_identity (fst (update_user_identity st now1 identity)) now2 identity))
      = replace_one ui_user_id ?d2 (replace_one ui_user_id ?d1 (identity_collection st))"
    and o2: "snd (update_user_identity (fst (update_user_identity st now1 identity)) now2 identity)"
    using assms(2) f1 c1 by (simp_all add: update_user_identity_def backend_call_def)
  have c3: "identity_collection (fst (update_user_identity st now2 identity))
      = replace_one ui_user_id ?d2 (identity_collection st)"
    using assms(1) by (simp add: update_user_identity_def backend_call_def)
  have r1: "find_one ui_user_id (ui_user_id identity)
         (replace_one ui_user_id ?d1 (identity_collection st)) = Some ?d1"
    using find_one_replace_one [of ui_user_id ?d1 "identity_collection st"] by (simp only: k)
  have t: "replace_one ui_user_id ?d2 (replace_one ui_user_id ?d1 (identity_collection st))
      = replace_one ui_user_id ?d2 (identity_collection st)"
    by (rule replace_one_twice) (simp only: k)
  have r2: "find_one ui_user_id (ui_user_id identity)
         (replace_one ui_user_id ?d2 (identity_collection st)) = Some ?d2"
    using find_one_replace_one [of ui_user_id ?d2 "identity_collection st"] by (simp only: k)
  from o1 o2 c1 c2 c3 r1 r2 t v show ?thesis by (simp only: simp_thms)
qed


theorem update_user_identity_idempotent_witness:
  "\<not> faults (empty_storage no_faults) 0 \<and> \<not> faults (empty_storage no_faults) 1
   \<and> identity_collection (fst (update_user_identity (empty_storage no_faults) instant2 identity_us))
       = [identity_us\<lparr>ui_created_at := (2024, 1, 1, 9, 0, 0, 123000),
                       ui_updated_at := (2024, 1, 2, 9, 0, 0, 654000)\<rparr>]
   \<and> identity_collection
        (fst (update_user_identity
               (fst (update_user_identity (empty_storage no_faults) instant1 identity_us))
               instant2 identity_us))
       = [identity_us\<lparr>ui_created_at := (2024, 1, 1, 9, 0, 0, 123000),
                       ui_updated_at := (2024, 1, 2, 9, 0, 0, 654000)\<rparr>]"
proof -
  have f: "\<not> faults (empty_storage no_faults) 0" "\<not> faults (empty_storage no_faults) 1"
    by (simp_all add: empty_storage_def no_faults_def)
  have one: "identity_collection
      (fst (update_user_identity (empty_storage no_faults) instant2 identity_us))
       = [identity_us\<lparr>ui_created_at := (2024, 1, 1, 9, 0, 0, 123000),
                       ui_updated_at := (2024, 1, 2, 9, 0, 0, 654000)\<rparr>]"
    by (simp add: update_user_identity_def backend_call_def empty_storage_def no_faults_def
          bson_identity_def identity_us_def instant1_def instant2_def)
  from update_user_identity_idempotent [OF f, of instant1 identity_us instant2] one f
  show ?thesis by simp
qed

text \<open>
  C7 as the specification states it fails: the stored \<open>updated_at\<close> is not the time
  of the call but that time cut to milliseconds, and the stored \<open>created_at\<close> is not
  the one supplied.
\<close>

theorem put_identity_exact_time_counterexample:
  "snd (update_user_identity (empty_storage no_faults) instant2 identity_us)
   \<and> map ui_updated_at
        (identity_collection (fst (update_user_identity (empty_storage no_faults) instant2 identity_us)))
       = [(2024, 1, 2, 9, 0, 0, 654000)]
   \<and> instant2 \<noteq> (2024, 1, 2, 9, 0, 0, 654000)
   \<and> map ui_created_at
        (identity_collection (fst (update_user_identity (empty_storage no_faults) instant2 identity_us)))
       = [(2024, 1, 1, 9, 0, 0, 123000)]
   \<and> ui_created_at identity_us \<noteq> (2024, 1, 1, 9, 0, 0, 123000)"
  by (simp add: update_user_identity_def backend_call_def empty_storage_def no_faults_def
        bson_identity_def identity_us_def instant1_def instant2_def)

subsection \<open>The memory update of a pipeline run\<close>


lemma save_memory_outcome:
  "snd (save_memory st m) =
     (if faults st 0 \<or> (has_embedding m \<and> faults st 1) then Inl BackendError
      else Inr (memory_id m))"
  by (simp add: save_memory_def backend_call_def Let_def split: bool.splits)

lemma save_memory_faults_after:
  "\<not> faults st 0 \<Longrightarrow> \<not> (has_embedding m \<and> faults st 1) \<Longrightarrow>
     faults (fst (save_memory st m)) = (\<lambda>n. faults st (n + save_calls m))"
  by (auto simp: save_memory_def backend_call_def Let_def save_calls_def split: bool.splits)

lemma save_signals_outcome:
  "snd (save_signals agent uid conv fresh i st sigs ids) =
     (if some_save_raises (faults st)
           (List.map_filter
              (\<lambda>p. create_memory_node agent uid (snd p) conv (fst (fresh (fst p)))
                     (snd (fresh (fst p))))
              (enumerate i sigs))
      then Inl BackendError
      else Inr (ids @ map memory_id
             (List.map_filter
                (\<lambda>p. create_memory_node agent uid (snd p) conv (fst (fresh (fst p)))
                       (snd (fresh (fst p))))
                (enumerate i sigs))))"
proof (induction sigs arbitrary: i st ids)
  case Nil
  then show ?case by (simp add: map_filter_simps)
next
  case (Cons sg sigs)
  let ?f = "\<lambda>p. create_memory_node agent uid (snd p) conv (fst (fresh (fst p)))
                     (snd (fresh (fst p)))"
  show ?case
  proof (cases "create_memory_node agent uid sg conv (fst (fresh i)) (snd (fresh i))")
    case None
    then have "List.map_filter ?f (enumerate i (sg # sigs))
        = List.map_filter ?f (enumerate (Suc i) sigs)"
      by (simp add: map_filter_simps)
    with None Cons.IH [of "Suc i" st ids] show ?thesis by simp
  next
    case (Some m)
    then have n: "List.map_filter ?f (enumerate i (sg # sigs))
        = m # List.map_filter ?f (enumerate (Suc i) sigs)"
      by (simp add: map_filter_simps)
    obtain st' r where sr: "save_memory st m = (st', r)" by (cases "save_memory st m")
    show ?thesis
    proof (cases "faults st 0 \<or> (has_embedding m \<and> faults st 1)")
      case True
      with save_memory_outcome [of st m] sr have "r = Inl BackendError" by simp
      with Some sr n True show ?thesis by auto
    next
      case False
      with save_memory_outcome [of st m] sr have r: "r = Inr (memory_id m)" by simp
      from False save_memory_faults_after [of st m] sr
      have f: "faults st' = (\<lambda>n. faults st (n + save_calls m))" by simp
      from Some sr r
      have "snd (save_signals agent uid conv fresh i st (sg # sigs) ids)
          = snd (save_signals agent uid conv fresh (Suc i) st' sigs (ids @ [memory_id m]))"
        by simp
      with Cons.IH [of "Suc i" st' "ids @ [memory_id m]"] n f False show ?thesis by simp
    qed
  qed
qed

lemma some_save_raises_first: "f 0 \<Longrightarrow> ms \<noteq> [] \<Longrightarrow> some_save_raises f ms"
  by (cases ms) simp_all


text \<open>
  C3, as the code has it. \<open>process\<close> returns a list in every case; the reply is no
  part of it. The list is empty when some \<open>save_memory\<close> of the run raises, be it at
  the document write or at the vector upsert, for the first record or a later one; in
  particular it is empty when every backend call raises. When no save raises, the list
  holds the ids of all the records built, whatever becomes of the identity write: its
  failure is caught inside \<open>update_user_identity\<close> and does not empty the list.
\<close>


theorem process_isolates_save_failure:
  "(some_save_raises (faults st)
      (built_nodes agent uid conv fresh (extract_memory_signals agent json_loads conv ident))
      \<longrightarrow> snd (process agent json_loads fresh now st uid conv ident) = [])
   \<and> (\<not> some_save_raises (faults st)
          (built_nodes agent uid conv fresh (extract_memory_signals agent json_loads conv ident))
      \<longrightarrow> snd (process agent json_loads fresh now st uid conv ident)
          = map memory_id
              (built_nodes agent uid conv fresh
                 (extract_memory_signals agent json_loads conv ident)))
   \<and> ((\<forall>n. faults st n) \<longrightarrow> snd (process agent json_loads fresh now st uid conv ident) = [])"
proof -
  let ?sigs = "extract_memory_signals agent json_loads conv ident"
  let ?nodes = "built_nodes agent uid conv fresh ?sigs"
  have p: "snd (process agent json_loads fresh now st uid conv ident) =
      (case snd (save_signals agent uid conv fresh 0 st ?sigs []) of
         Inl e \<Rightarrow> [] | Inr memory_ids \<Rightarrow> memory_ids)"
    by (simp add: process_def process_body_def split: prod.splits sum.splits option.splits)
  have r: "snd (process agent json_loads fresh now st uid conv ident) =
      (if some_save_raises (faults st) ?nodes then [] else map memory_id ?nodes)"
    unfolding p save_signals_outcome built_nodes_def by simp
  have a: "(\<forall>n. faults st n) \<longrightarrow> snd (process agent json_loads fresh now st uid conv ident) = []"
  proof
    assume "\<forall>n. faults st n"
    then have "faults st 0" by simp
    then show "snd (process agent json_loads fresh now st uid conv ident) = []"
      using r some_save_raises_first [of "faults st" ?nodes] by (cases "?nodes = []") simp_all
  qed
  from r a show ?thesis by simp
qed


text \<open>
  The theorem at work, on a run that builds one record with an embedding: when the
  vector upsert of its save fails the list is empty, though the document write came
  first and succeeded; on healthy backends the list holds the record's id.
\<close>

theorem process_isolates_save_failure_witness:
  "map memory_id (built_nodes (agent_of None (Some embed_unit)) ''A'' exchange fresh_ids
      (extract_memory_signals (agent_of None (Some embed_unit)) loads_example exchange
         (Some identity_a))) = [''u'']
   \<and> \<not> faults (empty_storage second_fails) 0
   \<and> snd (process (agent_of None (Some embed_unit)) loads_example fresh_ids day2
            (empty_storage second_fails) ''A'' exchange (Some identity_a)) = []
   \<and> snd (process (agent_of None (Some embed_unit)) loads_example fresh_ids day2
            (empty_storage no_faults) ''A'' exchange (Some identity_a)) = [''u'']
   \<and> snd (process (agent_of None (Some embed_unit)) loads_example fresh_ids day2
            (empty_storage all_fail) ''A'' exchange (Some identity_a)) = []"
proof -
  let ?agent = "agent_of None (Some embed_unit)"
  let ?nodes = "built_nodes ?agent ''A'' exchange fresh_ids
      (extract_memory_signals ?agent loads_example exchange (Some identity_a))"
  have n: "map memory_id ?nodes = [''u''] \<and> map has_embedding ?nodes = [True]"
    by (simp add: built_nodes_def extract_memory_signals_def agent_of_def create_memory_node_def
          map_filter_simps fresh_ids_def embed_unit_def has_embedding_def)
  then obtain m where m: "?nodes = [m]" "memory_id m = ''u''" "has_embedding m"
    by (cases ?nodes) auto
  have s: "some_save_raises (faults (empty_storage second_fails)) ?nodes"
    by (simp add: m empty_storage_def second_fails_def)
  have h: "\<not> some_save_raises (faults (empty_storage no_faults)) ?nodes"
    by (simp add: m empty_storage_def no_faults_def)
  have a: "\<forall>n. faults (empty_storage all_fail) n"
    by (simp add: empty_storage_def all_fail_def)
  have f: "\<not> faults (empty_storage second_fails) 0"
    by (simp add: empty_storage_def second_fails_def)
  from process_isolates_save_failure [of "empty_storage second_fails" ?agent "''A''" exchange
      fresh_ids loads_example "Some identity_a" day2] s
  have 1: "snd (process ?agent loads_example fresh_ids day2
            (empty_storage second_fails) ''A'' exchange (Some identity_a)) = []"
    by blast
  from process_isolates_save_failure [of "empty_storage no_faults" ?agent "''A''" exchange
      fresh_ids loads_example "Some identity_a" day2] h n
  have 2: "snd (process ?agent loads_example fresh_ids day2
            (empty_storage no_faults) ''A'' exchange (Some identity_a)) = [''u'']"
    by simp
  from process_isolates_save_failure [of "empty_storage all_fail" ?agent "''A''" exchange
      fresh_ids loads_example "Some identity_a" day2] a
  have 3: "snd (process ?agent loads_example fresh_ids day2
            (empty_storage all_fail) ''A'' exchange (Some identity_a)) = []"
    by blast
  from n f 1 2 3 show ?thesis by simp
qed

text \<open>
  C3 as the specification states it fails: the record is saved, the identity write
  fails (the identity collection stays empty), and the list of created ids is not empty.
\<close>

theorem process_identity_failure_counterexample:
  "second_fails 1
   \<and> snd (process (agent_of None None) loads_example fresh_ids day2
            (empty_storage second_fails) ''A'' exchange (Some identity_a)) = [''u'']
   \<and> map memory_id (memory_collection
        (fst (process (agent_of None None) loads_example fresh_ids day2
               (empty_storage second_fails) ''A'' exchange (Some identity_a)))) = [''u'']
   \<and> identity_collection
        (fst (process (agent_of None None) loads_example fresh_ids day2
               (empty_storage second_fails) ''A'' exchange (Some identity_a))) = []"
  by (simp add: process_def process_body_def extract_memory_signals_def agent_of_def
        create_memory_node_def save_memory_def backend_call_def has_embedding_def
        update_user_identity_def empty_storage_def second_fails_def fresh_ids_def
        bson_memory_def)

subsection \<open>Extraction of signals\<close>

text \<open>
  C2, as the code has it: with extraction enabled, when the model's answer holds no
  \<open>[\<close>, or no \<open>]\<close> after the first \<open>[\<close>, or a bracketed text that
  \<open>json.loads\<close> rejects, \<open>_extract_memory_signals\<close> returns the empty list:
  no signal at all, and no fallback signal.
\<close>

theorem extract_unparseable_gives_no_signal:
  assumes "extraction_llm agent = Some llm"
    and "llm (extraction_prompt (memory_types agent) (get_str conv ''user_message'')
           (get_str conv ''assistant_response'')) = Inr response_text"
    and "str_find CHR ''['' response_text < 0
         \<or> str_rfind CHR '']'' response_text + 1 \<le> str_find CHR ''['' response_text
         \<or> json_loads (slice response_text (str_find CHR ''['' response_text)
               (str_rfind CHR '']'' response_text + 1)) = Inl JSONDecodeError"
  shows "extract_memory_signals agent json_loads conv ident = []"
  using assms
  by (auto simp: extract_memory_signals_def extract_memory_signals_body_def parse_signals_def
        Let_def)

theorem extract_unparseable_gives_no_signal_witness:
  "extraction_llm (agent_of (Some llm_prose) None) = Some llm_prose
   \<and> str_find CHR ''['' ''Nothing to remember here.'' < 0
   \<and> extract_memory_signals (agent_of (Some llm_prose) None) loads_example exchange None = []"
proof -
  have a: "extraction_llm (agent_of (Some llm_prose) None) = Some llm_prose"
    by (simp add: agent_of_def)
  have b: "llm_prose (extraction_prompt (memory_types (agent_of (Some llm_prose) None))
             (get_str exchange ''user_message'') (get_str exchange ''assistant_response''))
           = Inr ''Nothing to remember here.''"
    by (simp add: llm_prose_def)
  have c: "str_find CHR ''['' ''Nothing to remember here.'' < 0"
    by simp
  from extract_unparseable_gives_no_signal [OF a b disjI1, OF c, of loads_example None] a c
  show ?thesis by simp
qed

text \<open>
  C2 as the specification states it fails: the answer \<open>Nothing to remember here.\<close>
  holds no array, and the result is not a list of one signal.
\<close>

theorem extract_fallback_counterexample:
  "extraction_llm (agent_of (Some llm_prose) None) = Some llm_prose
   \<and> llm_prose (extraction_prompt (memory_types (agent_of (Some llm_prose) None))
        (get_str exchange ''user_message'') (get_str exchange ''assistant_response''))
       = Inr ''Nothing to remember here.''
   \<and> str_find CHR ''['' ''Nothing to remember here.'' = - 1
   \<and> length (extract_memory_signals (agent_of (Some llm_prose) None) loads_example exchange None)
       \<noteq> 1"
  by (simp add: extract_memory_signals_def extract_memory_signals_body_def parse_signals_def
        agent_of_def llm_prose_def str_rfind_def Let_def)

lemma validate_signals_member:
  "s \<in> set (validate_signals items) \<Longrightarrow>
     \<exists>kvs c. PDict kvs \<in> set items \<and> map_of kvs ''content'' = Some c
       \<and> s = [(''content'', c),
               (''memory_type'',
                  case map_of kvs ''memory_type'' of None \<Rightarrow> PStr ''factual'' | Some t \<Rightarrow> t),
               (''tags'', case map_of kvs ''tags'' of Some (PList ts) \<Rightarrow> PList ts | _ \<Rightarrow> PList [])]"
proof (induction items rule: validate_signals.induct)
  case 1
  then show ?case by simp
next
  case (2 kvs rest)
  then show ?case by (cases "map_of kvs ''content''") auto
qed auto

lemma validate_signals_empty:
  "(validate_signals items = []) = (\<forall>kvs. PDict kvs \<in> set items \<longrightarrow> map_of kvs ''content'' = None)"
proof (induction items rule: validate_signals.induct)
  case 1
  then show ?case by simp
next
  case (2 kvs rest)
  then show ?case by (cases "map_of kvs ''content''") auto
qed auto

lemma create_memory_node_fields:
  "create_memory_node agent uid sg conv new_id now = Some node \<Longrightarrow>
     map_of sg ''content'' = Some (PStr (content node))
     \<and> memory_type node =
         (case map_of sg ''memory_type'' of
            None \<Rightarrow> FACTUAL
          | Some t \<Rightarrow> (case MemoryType_of t of None \<Rightarrow> FACTUAL | Some m \<Rightarrow> m))"
  by (auto simp: create_memory_node_def Let_def split: option.splits pyval.splits)


lemma validate_signals_keeps:
  "PDict kvs \<in> set items \<Longrightarrow> map_of kvs ''content'' = Some c \<Longrightarrow>
     [(''content'', c),
      (''memory_type'',
         case map_of kvs ''memory_type'' of None \<Rightarrow> PStr ''factual'' | Some t \<Rightarrow> t),
      (''tags'', case map_of kvs ''tags'' of Some (PList ts) \<Rightarrow> PList ts | _ \<Rightarrow> PList [])]
     \<in> set (validate_signals items)"
proof (induction items rule: validate_signals.induct)
  case 1
  then show ?case by simp
next
  case (2 kvs' rest)
  then show ?case by (cases "map_of kvs' ''content''") auto
qed auto



lemma validate_signals_length:
  "length (validate_signals items) = length (filter has_content items)"
proof (induction items)
  case Nil
  then show ?case by simp
next
  case (Cons x xs)
  then show ?case by (cases x) (auto split: option.splits)
qed

text \<open>
  C8, as the code has it. Validation keeps exactly the dicts that have a \<open>content\<close>
  key, whatever its value (the empty string is kept): every kept signal comes from such
  a dict, every such dict gives its signal, and there are as many signals as such dicts.
  In a kept signal an absent \<open>memory_type\<close> is \<open>factual\<close> and a \<open>tags\<close> value
  that is not a list is the empty list. A record built from a signal has the signal's
  content string and the signal's memory type when that is one of the four values,
  \<open>FACTUAL\<close> otherwise.
\<close>


theorem signal_validation:
  "(\<forall>s \<in> set (validate_signals items).
      \<exists>kvs c. PDict kvs \<in> set items \<and> map_of kvs ''content'' = Some c
        \<and> s = [(''content'', c),
                (''memory_type'',
                   case map_of kvs ''memory_type'' of None \<Rightarrow> PStr ''factual'' | Some t \<Rightarrow> t),
                (''tags'',
                   case map_of kvs ''tags'' of Some (PList ts) \<Rightarrow> PList ts | _ \<Rightarrow> PList [])])
   \<and> ((validate_signals items = [])
        = (\<forall>kvs. PDict kvs \<in> set items \<longrightarrow> map_of kvs ''content'' = None))
   \<and> (\<forall>node. create_memory_node agent uid sg conv new_id now = Some node \<longrightarrow>
         map_of sg ''content'' = Some (PStr (content node))
         \<and> memory_type node =
             (case map_of sg ''memory_type'' of
                None \<Rightarrow> FACTUAL
              | Some t \<Rightarrow> (case MemoryType_of t of None \<Rightarrow> FACTUAL | Some m \<Rightarrow> m)))
   \<and> (\<forall>kvs c. PDict kvs \<in> set items \<and> map_of kvs ''content'' = Some c \<longrightarrow>
         [(''content'', c),
          (''memory_type'',
             case map_of kvs ''memory_type'' of None \<Rightarrow> PStr ''factual'' | Some t \<Rightarrow> t),
          (''tags'',
             case map_of kvs ''tags'' of Some (PList ts) \<Rightarrow> PList ts | _ \<Rightarrow> PList [])]
         \<in> set (validate_signals items))
   \<and> length (validate_signals items) = length (filter has_content items)"
  using validate_signals_member [of _ items] validate_signals_empty [of items]
    create_memory_node_fields [of agent uid sg conv new_id now]
    validate_signals_keeps [of _ items] validate_signals_length [of items]
  by blast


text \<open>
  The theorem at work: of four items the two dicts with a \<open>content\<close> key are kept,
  the one with the empty string in last place included; the type \<open>mood\<close> becomes
  \<open>FACTUAL\<close> in the record.
\<close>

theorem signal_validation_witness:
  "validate_signals items_example =
     [signal_mood,
      [(''content'', PStr []), (''memory_type'', PStr ''factual''), (''tags'', PList [])]]
   \<and> map_option memory_type
        (create_memory_node (agent_of None None) ''A'' signal_mood exchange ''n1'' day2)
       = Some FACTUAL
   \<and> map_option content
        (create_memory_node (agent_of None None) ''A'' signal_mood exchange ''n1'' day2)
       = Some ''likes tea''"
proof -
  note t = signal_validation [of items_example "agent_of None None" "''A''" signal_mood exchange
      "''n1''" day2]
  have i: "PDict [(''content'', PStr [])] \<in> set items_example"
    "map_of [(''content'', PStr [])] ''content'' = Some (PStr [])"
    by (simp_all add: items_example_def)
  from t i
  have k: "[(''content'', PStr []), (''memory_type'', PStr ''factual''), (''tags'', PList [])]
      \<in> set (validate_signals items_example)"
    by force
  have v: "validate_signals items_example =
     [signal_mood,
      [(''content'', PStr []), (''memory_type'', PStr ''factual''), (''tags'', PList [])]]"
    by (simp add: items_example_def signal_mood_def)
  obtain node where n:
    "create_memory_node (agent_of None None) ''A'' signal_mood exchange ''n1'' day2 = Some node"
    by (simp add: create_memory_node_def agent_of_def signal_mood_def)
  from t n
  have "map_of signal_mood ''content'' = Some (PStr (content node))
     \<and> memory_type node =
         (case map_of signal_mood ''memory_type'' of
            None \<Rightarrow> FACTUAL
          | Some t \<Rightarrow> (case MemoryType_of t of None \<Rightarrow> FACTUAL | Some m \<Rightarrow> m))"
    by blast
  then have "content node = ''likes tea'' \<and> memory_type node = FACTUAL"
    by (simp add: signal_mood_def)
  with v k n show ?thesis by simp
qed

text \<open>
  C8 as the specification states it fails: a parsed signal with the empty string as
  content passes validation, and \<open>process\<close> stores a record with empty content.
\<close>

theorem nonempty_content_counterexample:
  "extract_memory_signals (agent_of (Some llm_empty_content) None) loads_example exchange None
     = [[(''content'', PStr []), (''memory_type'', PStr ''factual''), (''tags'', PList [])]]
   \<and> snd (process (agent_of (Some llm_empty_content) None) loads_example fresh_ids day2
            (empty_storage no_faults) ''A'' exchange None) = [''u'']
   \<and> map content (memory_collection
        (fst (process (agent_of (Some llm_empty_content) None) loads_example fresh_ids day2
               (empty_storage no_faults) ''A'' exchange None))) = [[]]"
proof -
  have p: "parse_signals loads_example reply_empty_content
        = Inr (PList [PDict [(''content'', PStr [])]])"
    by (simp add: parse_signals_def str_rfind_def slice_def reply_empty_content_def
          empty_content_response_def dq_def loads_example_def Let_def)
  have e: "extract_memory_signals (agent_of (Some llm_empty_content) None) loads_example exchange
      None = [[(''content'', PStr []), (''memory_type'', PStr ''factual''), (''tags'', PList [])]]"
    by (simp add: extract_memory_signals_def extract_memory_signals_body_def agent_of_def
          llm_empty_content_def p)
  show ?thesis
    unfolding process_def process_body_def e
    by (simp add: create_memory_node_def agent_of_def save_memory_def backend_call_def
          has_embedding_def empty_storage_def no_faults_def fresh_ids_def bson_memory_def)
qed

subsection \<open>The embedding model\<close>

lemma create_memory_node_embedding_failure:
  assumes "embeddings agent = Some embed_query" and "embed_query c = Inl e"
    and "map_of signal ''content'' = Some (PStr c)"
    and "map_of signal ''tags'' = Some (PList [])"
  shows "\<exists>node. create_memory_node agent uid signal conv new_id now = Some node
           \<and> embedding node = None \<and> content node = c"
  using assms by (simp add: create_memory_node_def Let_def)

lemma create_hive_mind_memory_without_embeddings:
  assumes "embeddings agent = None" and "\<not> faults st 0"
  shows "snd (create_hive_mind_memory agent st uid content_text mtype tgs new_id now) = Some new_id"
  using assms
  by (simp add: create_hive_mind_memory_def save_memory_def backend_call_def has_embedding_def)

text \<open>
  C9 at the failing input: in \<open>create_hive_mind_memory\<close> a failure of the embedding
  model ends the operation with \<open>None\<close> and the storage untouched, so no record is
  created or saved. (The conversion of a signal, \<open>create_memory_node_embedding_failure\<close>,
  does survive the failure, and so does either path when the model is absent.)
\<close>

theorem create_hive_mind_memory_embedding_failure:
  assumes "embeddings agent = Some embed_query" and "embed_query content_text = Inl e"
  shows "create_hive_mind_memory agent st uid content_text mtype tgs new_id now = (st, None)"
  using assms by (simp add: create_hive_mind_memory_def)

theorem create_hive_mind_memory_embedding_failure_witness:
  "embeddings (agent_of None (Some embed_down)) = Some embed_down
   \<and> embed_down ''insight'' = Inl ServiceError
   \<and> create_hive_mind_memory (agent_of None (Some embed_down)) (empty_storage no_faults) ''A''
        ''insight'' FACTUAL None ''h1'' day2 = (empty_storage no_faults, None)"
proof -
  have a: "embeddings (agent_of None (Some embed_down)) = Some embed_down"
    by (simp add: agent_of_def)
  have b: "embed_down ''insight'' = Inl ServiceError"
    by (simp add: embed_down_def)
  from create_hive_mind_memory_embedding_failure [OF a b] a b show ?thesis by simp
qed

subsection \<open>Hydration and final order of a search\<close>

lemma hydrate_Nil: "hydrate docs [] = []"
  by (simp add: hydrate_def sort_by_recency_def)

lemma set_hydrate:
  "set (hydrate docs ids) = {d \<in> set docs. memory_id d \<in> set ids}"
  by (auto simp: hydrate_def sort_by_recency_def)

lemma sorted_hydrate:
  "sorted_wrt (\<lambda>a b. recency_value b \<le> recency_value a) (hydrate docs ids)"
proof -
  have "sorted (map (\<lambda>m. - recency_value m) (hydrate docs ids))"
    by (simp add: hydrate_def sort_by_recency_def)
  then show ?thesis by (simp add: sorted_map)
qed

lemma hydrate_set_cong:
  "set ids' = set ids \<Longrightarrow> hydrate docs ids' = hydrate docs ids"
  by (simp add: hydrate_def)

lemma search_memories_cases:
  "snd (search_memories st q uid hive limit mts) = []
   \<or> (\<exists>ids. chroma_query (chroma_distance st) (chroma_collection st) q limit
               (where_clause_of uid hive mts) = Inr ids
        \<and> snd (search_memories st q uid hive limit mts) = hydrate (memory_collection st) ids)"
  by (simp add: search_memories_result search_memories_body_result split: sum.splits)

text \<open>
  C6: the result of \<open>search_memories\<close> is in descending order of
  \<open>recency_value\<close>; each of its records is a document of the store whose id is among
  those the vector query returned; on healthy backends it is exactly the hydration of
  those ids; and it depends on the ids as a set only: a distance that ranks the same
  candidates in another order gives the same result.
\<close>

theorem search_memories_final_order:
  "sorted_wrt (\<lambda>a b. recency_value b \<le> recency_value a)
     (snd (search_memories st q uid hive limit mts))
   \<and> (\<forall>m \<in> set (snd (search_memories st q uid hive limit mts)).
         m \<in> set (memory_collection st)
         \<and> (\<exists>ids. chroma_query (chroma_distance st) (chroma_collection st) q limit
                     (where_clause_of uid hive mts) = Inr ids \<and> memory_id m \<in> set ids))
   \<and> (\<forall>ids. \<not> faults st 0 \<and> \<not> faults st 1
         \<and> chroma_query (chroma_distance st) (chroma_collection st) q limit
              (where_clause_of uid hive mts) = Inr ids
         \<longrightarrow> snd (search_memories st q uid hive limit mts) = hydrate (memory_collection st) ids)
   \<and> (\<forall>d ids ids'.
         chroma_query (chroma_distance st) (chroma_collection st) q limit
           (where_clause_of uid hive mts) = Inr ids
         \<and> chroma_query d (chroma_collection st) q limit (where_clause_of uid hive mts) = Inr ids'
         \<and> set ids' = set ids
         \<longrightarrow> snd (search_memories (st\<lparr>chroma_distance := d\<rparr>) q uid hive limit mts)
             = snd (search_memories st q uid hive limit mts))"
proof (intro conjI ballI allI impI)
  show "sorted_wrt (\<lambda>a b. recency_value b \<le> recency_value a)
     (snd (search_memories st q uid hive limit mts))"
    using search_memories_cases [of st q uid hive limit mts] sorted_hydrate by auto
next
  fix m
  assume "m \<in> set (snd (search_memories st q uid hive limit mts))"
  then show "m \<in> set (memory_collection st)"
    using search_memories_cases [of st q uid hive limit mts] by (auto simp: set_hydrate)
next
  fix m
  assume "m \<in> set (snd (search_memories st q uid hive limit mts))"
  then show "\<exists>ids. chroma_query (chroma_distance st) (chroma_collection st) q limit
                     (where_clause_of uid hive mts) = Inr ids \<and> memory_id m \<in> set ids"
    using search_memories_cases [of st q uid hive limit mts] by (auto simp: set_hydrate)
next
  fix ids
  assume "\<not> faults st 0 \<and> \<not> faults st 1
         \<and> chroma_query (chroma_distance st) (chroma_collection st) q limit
              (where_clause_of uid hive mts) = Inr ids"
  then show "snd (search_memories st q uid hive limit mts) = hydrate (memory_collection st) ids"
    by (simp add: search_memories_result search_memories_body_result hydrate_Nil)
next
  fix d ids ids'
  assume a: "chroma_query (chroma_distance st) (chroma_collection st) q limit
           (where_clause_of uid hive mts) = Inr ids
         \<and> chroma_query d (chroma_collection st) q limit (where_clause_of uid hive mts) = Inr ids'
         \<and> set ids' = set ids"
  then have "(ids' = []) = (ids = [])" by (metis set_empty)
  with a show "snd (search_memories (st\<lparr>chroma_distance := d\<rparr>) q uid hive limit mts)
             = snd (search_memories st q uid hive limit mts)"
    by (simp add: search_memories_result search_memories_body_result
          hydrate_set_cong [of ids' ids])
qed

text \<open>
  The theorem at work: the vector query ranks \<open>m4\<close> before \<open>m5\<close>, the opposite
  distance ranks \<open>m5\<close> before \<open>m4\<close>, and both searches return the record of
  recency 1 before the record of recency 1/2.
\<close>

theorem search_memories_final_order_witness:
  "chroma_query l1_distance (chroma_collection (storage_recency no_faults)) [1, 0] 3
      (where_clause_of (Some ''A'') False None) = Inr [''m4'', ''m5'']
   \<and> chroma_query far_first (chroma_collection (storage_recency no_faults)) [1, 0] 3
      (where_clause_of (Some ''A'') False None) = Inr [''m5'', ''m4'']
   \<and> snd (search_memories (storage_recency no_faults) [1, 0] (Some ''A'') False 3 None)
       = [mem_fresh, mem_faded]
   \<and> snd (search_memories ((storage_recency no_faults)\<lparr>chroma_distance := far_first\<rparr>) [1, 0]
            (Some ''A'') False 3 None)
       = [mem_fresh, mem_faded]"
proof -
  have d: "chroma_distance (storage_recency no_faults) = l1_distance"
    by (simp add: storage_recency_def)
  have f: "\<not> faults (storage_recency no_faults) 0 \<and> \<not> faults (storage_recency no_faults) 1"
    by (simp add: storage_recency_def no_faults_def)
  have c1: "chroma_query l1_distance (chroma_collection (storage_recency no_faults)) [1, 0] 3
      (where_clause_of (Some ''A'') False None) = Inr [''m4'', ''m5'']"
    by (simp add: storage_recency_def no_faults_def chroma_query_def where_clause_of_def
          scope_clause_def chroma_entry_of_def metadata_of_def mem_faded_def mem_fresh_def
          personal_memory_def str_bool_def l1_distance_def far_first_def hydrate_def
          sort_by_recency_def)
  have c2: "chroma_query far_first (chroma_collection (storage_recency no_faults)) [1, 0] 3
      (where_clause_of (Some ''A'') False None) = Inr [''m5'', ''m4'']"
    by (simp add: storage_recency_def no_faults_def chroma_query_def where_clause_of_def
          scope_clause_def chroma_entry_of_def metadata_of_def mem_faded_def mem_fresh_def
          personal_memory_def str_bool_def l1_distance_def far_first_def hydrate_def
          sort_by_recency_def)
  have h: "hydrate (memory_collection (storage_recency no_faults)) [''m4'', ''m5'']
      = [mem_fresh, mem_faded]"
    by (simp add: storage_recency_def no_faults_def chroma_query_def where_clause_of_def
          scope_clause_def chroma_entry_of_def metadata_of_def mem_faded_def mem_fresh_def
          personal_memory_def str_bool_def l1_distance_def far_first_def hydrate_def
          sort_by_recency_def)
  note t = search_memories_final_order [of "storage_recency no_faults" "[1, 0]" "Some ''A''"
      False 3 None]
  from t f c1 h d
  have r: "snd (search_memories (storage_recency no_faults) [1, 0] (Some ''A'') False 3 None)
       = [mem_fresh, mem_faded]"
    by simp
  have s: "set [''m5'', ''m4''] = set [''m4'', ''m5'']"
    by auto
  from t have "\<forall>d ids ids'.
         chroma_query (chroma_distance (storage_recency no_faults))
           (chroma_collection (storage_recency no_faults)) [1, 0] 3
           (where_clause_of (Some ''A'') False None) = Inr ids
         \<and> chroma_query d (chroma_collection (storage_recency no_faults)) [1, 0] 3
             (where_clause_of (Some ''A'') False None) = Inr ids'
         \<and> set ids' = set ids
         \<longrightarrow> snd (search_memories ((storage_recency no_faults)\<lparr>chroma_distance := d\<rparr>) [1, 0]
                  (Some ''A'') False 3 None)
             = snd (search_memories (storage_recency no_faults) [1, 0] (Some ''A'') False 3 None)"
    by (rule conjunct2 [OF conjunct2 [OF conjunct2]])
  then have "chroma_query (chroma_distance (storage_recency no_faults))
           (chroma_collection (storage_recency no_faults)) [1, 0] 3
           (where_clause_of (Some ''A'') False None) = Inr [''m4'', ''m5'']
         \<and> chroma_query far_first (chroma_collection (storage_recency no_faults)) [1, 0] 3
             (where_clause_of (Some ''A'') False None) = Inr [''m5'', ''m4'']
         \<and> set [''m5'', ''m4''] = set [''m4'', ''m5'']
         \<longrightarrow> snd (search_memories ((storage_recency no_faults)\<lparr>chroma_distance := far_first\<rparr>)
                  [1, 0] (Some ''A'') False 3 None)
             = snd (search_memories (storage_recency no_faults) [1, 0] (Some ''A'') False 3 None)"
    by (elim allE)
  with c1 c2 s d
  have "snd (search_memories ((storage_recency no_faults)\<lparr>chroma_distance := far_first\<rparr>) [1, 0]
            (Some ''A'') False 3 None)
       = snd (search_memories (storage_recency no_faults) [1, 0] (Some ''A'') False 3 None)"
    by (simp only: simp_thms)
  with r c1 c2 show ?thesis by simp
qed

subsection \<open>Scope filters\<close>

lemma str_bool_eq: "(str_bool a = str_bool b) = (a = b)"
  by (simp add: str_bool_def)


lemma matches_add_condition:
  "matches md (add_condition w c) = (matches md w \<and> matches md c)"
  by (cases w) (auto simp: add_condition_def)

lemma matches_where_scope:
  "matches md (where_clause_of uid hive mts) \<Longrightarrow> matches md (scope_clause uid hive)"
  by (auto simp: where_clause_of_def matches_add_condition split: option.splits list.splits)

lemma where_clause_of_no_types:
  "where_clause_of uid hive None = scope_clause uid hive"
  by (simp add: where_clause_of_def)

lemma set_mongo_limit: "set (mongo_limit n xs) \<subseteq> set xs"
  by (auto simp: mongo_limit_def dest: in_set_takeD)

lemma recent_sound:
  "m \<in> set (snd (get_recent_memories st uid hive limit)) \<Longrightarrow>
     m \<in> set (memory_collection st) \<and> recent_query uid hive m"
  using set_mongo_limit [of limit
      "rev (sort_key timestamp (filter (recent_query uid hive) (memory_collection st)))"]
  by (auto simp: get_recent_memories_result split: if_splits)

lemma recent_complete:
  "\<not> faults st 0 \<Longrightarrow> d \<in> set (memory_collection st) \<Longrightarrow> recent_query uid hive d \<Longrightarrow>
     d \<in> set (snd (get_recent_memories st uid hive 0))"
  by (simp add: get_recent_memories_result mongo_limit_def)

lemma chroma_query_sound:
  assumes "chroma_query dst coll q n w = Inr ids" and "i \<in> set ids"
  shows "\<exists>e \<in> set coll. ce_id e = i \<and> matches (ce_metadata e) w"
proof -
  let ?xs = "sort_key (\<lambda>e. dst q (ce_embedding e)) (filter (\<lambda>e. matches (ce_metadata e) w) coll)"
  from assms(1) have "ids = map ce_id (take (nat n) ?xs)"
    by (simp add: chroma_query_def split: if_splits)
  with assms(2) obtain e where e: "e \<in> set (take (nat n) ?xs)" and i: "ce_id e = i"
    by auto
  from e have "e \<in> set ?xs" by (rule in_set_takeD)
  then have "e \<in> set coll \<and> matches (ce_metadata e) w" by simp
  with i show ?thesis by blast
qed

lemma chroma_query_complete:
  assumes "e \<in> set coll" and "matches (ce_metadata e) w" and "0 < n"
    and "int (length coll) \<le> n"
  shows "\<exists>ids. chroma_query dst coll q n w = Inr ids \<and> ce_id e \<in> set ids"
proof -
  let ?xs = "sort_key (\<lambda>e. dst q (ce_embedding e)) (filter (\<lambda>e. matches (ce_metadata e) w) coll)"
  have "length ?xs \<le> length coll" by simp
  moreover from assms(4) have "length coll \<le> nat n" by simp
  ultimately have "length ?xs \<le> nat n" by (rule order_trans)
  then have "take (nat n) ?xs = ?xs" by (rule take_all)
  moreover have "e \<in> set ?xs" using assms(1,2) by simp
  ultimately show ?thesis using assms(3) by (simp add: chroma_query_def)
qed

lemma search_sound:
  assumes "m \<in> set (snd (search_memories st q uid hive limit mts))"
  shows "m \<in> set (memory_collection st)
     \<and> (\<exists>e \<in> set (chroma_collection st). ce_id e = memory_id m
           \<and> matches (ce_metadata e) (where_clause_of uid hive mts))"
proof -
  from assms search_memories_cases [of st q uid hive limit mts]
  obtain ids where c: "chroma_query (chroma_distance st) (chroma_collection st) q limit
               (where_clause_of uid hive mts) = Inr ids"
    and m: "m \<in> set (hydrate (memory_collection st) ids)"
    by auto
  from m have "m \<in> set (memory_collection st)" "memory_id m \<in> set ids"
    by (simp_all add: set_hydrate)
  with chroma_query_sound [OF c] show ?thesis by simp
qed




subsection \<open>Scope isolation\<close>


lemma matches_scope_by_keys:
  assumes "map_of md ''user_id'' = Some (user_id d)"
    and "map_of md ''is_hive_mind'' = Some (str_bool (is_hive_mind d))"
  shows "matches md (scope_clause uid hive) = recent_query uid hive d"
  using assms by (cases uid) (auto simp: scope_clause_def recent_query_def str_bool_eq)

lemma search_complete_entry:
  assumes "\<not> faults st 0" and "\<not> faults st 1"
    and "d \<in> set (memory_collection st)" and "e \<in> set (chroma_collection st)"
    and "ce_id e = memory_id d"
    and "matches (ce_metadata e) (where_clause_of uid hive mts)"
    and "0 < limit" and "int (length (chroma_collection st)) \<le> limit"
  shows "d \<in> set (snd (search_memories st q uid hive limit mts))"
proof -
  from chroma_query_complete [OF assms(4) assms(6) assms(7,8)]
  obtain ids where c: "chroma_query (chroma_distance st) (chroma_collection st) q limit
               (where_clause_of uid hive mts) = Inr ids"
    and i: "ce_id e \<in> set ids"
    by blast
  from i have "ids \<noteq> []" by auto
  with c assms(1,2)
  have "snd (search_memories st q uid hive limit mts) = hydrate (memory_collection st) ids"
    by (simp add: search_memories_result search_memories_body_result)
  moreover from i assms(5) have "memory_id d \<in> set ids" by simp
  ultimately show ?thesis using assms(3) by (simp add: set_hydrate)
qed

lemma consistent_result_matches:
  assumes "index_consistent st"
    and "m \<in> set (snd (search_memories st q uid hive limit mts))"
  shows "recent_query uid hive m"
proof -
  from search_sound [OF assms(2)]
  obtain e where m: "m \<in> set (memory_collection st)" and e: "e \<in> set (chroma_collection st)"
    and i: "ce_id e = memory_id m"
    and w: "matches (ce_metadata e) (where_clause_of uid hive mts)"
    by blast
  from assms(1) e m i
  have k: "map_of (ce_metadata e) ''user_id'' = Some (user_id m)"
    "map_of (ce_metadata e) ''is_hive_mind'' = Some (str_bool (is_hive_mind m))"
    by (simp_all add: index_consistent_def)
  from w have "matches (ce_metadata e) (scope_clause uid hive)"
    by (rule matches_where_scope)
  with matches_scope_by_keys [OF k] show ?thesis by simp
qed


text \<open>
  C4, as the code has it. A personal record of owner \<open>A\<close> is never returned by a
  recent query scoped to another, non-empty owner id, nor by a recent query under the
  shared scope; a search under either scope never returns it as long as the index
  agrees with the document store on owner and hive-mind flag. Every shared record of the
  store is returned by the unlimited recent query under the shared scope, with or
  without an owner id, and by a shared search when the index agrees with the store,
  holds an entry for the record and the limit admits the whole index.
\<close>


theorem scope_isolation:
  assumes "\<not> is_hive_mind r" and "user_id r \<noteq> b" and "b \<noteq> []"
  shows "r \<notin> set (snd (get_recent_memories st (Some b) False limit))
    \<and> r \<notin> set (snd (get_recent_memories st uid True limit))
    \<and> (index_consistent st \<longrightarrow>
          r \<notin> set (snd (search_memories st q (Some b) False limit mts))
          \<and> r \<notin> set (snd (search_memories st q uid True limit mts)))
    \<and> (\<forall>s. is_hive_mind s \<and> s \<in> set (memory_collection st) \<and> \<not> faults st 0
          \<longrightarrow> s \<in> set (snd (get_recent_memories st uid True 0)))
    \<and> (\<forall>s. is_hive_mind s \<and> s \<in> set (memory_collection st)
          \<and> index_consistent st \<and> memory_id s \<in> ce_id ` set (chroma_collection st)
          \<and> \<not> faults st 0 \<and> \<not> faults st 1
          \<and> 0 < limit \<and> int (length (chroma_collection st)) \<le> limit
          \<longrightarrow> s \<in> set (snd (search_memories st q uid True limit None)))"
proof -
  have p: "\<not> recent_query (Some b) False r"
    using assms by (simp add: recent_query_def)
  have h: "\<not> recent_query uid True r"
    using assms(1) by (simp add: recent_query_def)
  have s: "\<And>s. is_hive_mind s \<Longrightarrow> recent_query uid True s"
    by (simp add: recent_query_def split: option.splits)
  have 1: "r \<notin> set (snd (get_recent_memories st (Some b) False limit))"
    using p recent_sound [of r st "Some b" False limit] by blast
  have 2: "r \<notin> set (snd (get_recent_memories st uid True limit))"
    using h recent_sound [of r st uid True limit] by blast
  have 3: "index_consistent st \<longrightarrow>
          r \<notin> set (snd (search_memories st q (Some b) False limit mts))
          \<and> r \<notin> set (snd (search_memories st q uid True limit mts))"
    using p h consistent_result_matches [of st r q "Some b" False limit mts]
      consistent_result_matches [of st r q uid True limit mts]
    by blast
  have 4: "\<forall>s. is_hive_mind s \<and> s \<in> set (memory_collection st) \<and> \<not> faults st 0
          \<longrightarrow> s \<in> set (snd (get_recent_memories st uid True 0))"
    using s recent_complete [of st _ uid True] by blast
  have 5: "\<forall>s. is_hive_mind s \<and> s \<in> set (memory_collection st)
          \<and> index_consistent st \<and> memory_id s \<in> ce_id ` set (chroma_collection st)
          \<and> \<not> faults st 0 \<and> \<not> faults st 1
          \<and> 0 < limit \<and> int (length (chroma_collection st)) \<le> limit
          \<longrightarrow> s \<in> set (snd (search_memories st q uid True limit None))"
  proof (intro allI impI)
    fix s
    assume a: "is_hive_mind s \<and> s \<in> set (memory_collection st)
          \<and> index_consistent st \<and> memory_id s \<in> ce_id ` set (chroma_collection st)
          \<and> \<not> faults st 0 \<and> \<not> faults st 1
          \<and> 0 < limit \<and> int (length (chroma_collection st)) \<le> limit"
    then obtain e where e: "e \<in> set (chroma_collection st)" "ce_id e = memory_id s"
      by auto
    from a have ic: "index_consistent st" and sm: "s \<in> set (memory_collection st)"
      by simp_all
    from ic e(1) sm e(2) [symmetric]
    have k: "map_of (ce_metadata e) ''user_id'' = Some (user_id s)"
      "map_of (ce_metadata e) ''is_hive_mind'' = Some (str_bool (is_hive_mind s))"
      unfolding index_consistent_def by blast+
    from a s have "recent_query uid True s" by simp
    with matches_scope_by_keys [OF k, of uid True]
    have "matches (ce_metadata e) (where_clause_of uid True None)"
      by (simp add: where_clause_of_no_types)
    with a e show "s \<in> set (snd (search_memories st q uid True limit None))"
      by (simp add: search_complete_entry)
  qed
  from 1 2 3 4 5 show ?thesis by blast
qed


theorem scope_isolation_witness:
  "\<not> is_hive_mind mem_a \<and> user_id mem_a \<noteq> ''B'' \<and> ''B'' \<noteq> []
   \<and> mem_a \<in> set (memory_collection (storage_mixed no_faults))
   \<and> index_consistent (storage_mixed no_faults)
   \<and> mem_a \<notin> set (snd (get_recent_memories (storage_mixed no_faults) (Some ''B'') False 3))
   \<and> mem_a \<notin> set (snd (get_recent_memories (storage_mixed no_faults) None True 3))
   \<and> mem_a \<notin> set (snd (search_memories (storage_mixed no_faults) [1, 0] (Some ''B'') False 3 None))
   \<and> mem_a \<notin> set (snd (search_memories (storage_mixed no_faults) [1, 0] None True 3 None))
   \<and> mem_shared \<in> set (snd (get_recent_memories (storage_mixed no_faults) None True 0))
   \<and> mem_shared \<in> set (snd (search_memories (storage_mixed no_faults) [1, 0] None True 3 None))"
proof -
  have r: "\<not> is_hive_mind mem_a" "user_id mem_a \<noteq> ''B''" "''B'' \<noteq> []"
    by (simp_all add: mem_a_def personal_memory_def)
  have c: "memory_collection (storage_mixed no_faults) = [mem_a, mem_shared]"
    "chroma_collection (storage_mixed no_faults)
       = [chroma_entry_of mem_a, chroma_entry_of mem_shared]"
    by (simp_all add: storage_mixed_def)
  have f: "\<not> faults (storage_mixed no_faults) 0" "\<not> faults (storage_mixed no_faults) 1"
    by (simp_all add: storage_mixed_def no_faults_def)
  have i: "index_consistent (storage_mixed no_faults)"
    by (simp add: index_consistent_def c chroma_entry_of_def metadata_of_def mem_a_def
          mem_shared_def personal_memory_def)
  have s: "is_hive_mind mem_shared"
    "memory_id mem_shared \<in> ce_id ` set (chroma_collection (storage_mixed no_faults))"
    by (simp_all add: mem_shared_def c chroma_entry_of_def)
  from scope_isolation [OF r, of "storage_mixed no_faults" 3 None "[1, 0]" None] r c f i s
  show ?thesis by simp
qed

text \<open>
  C4 as the specification states it fails twice. The empty owner id is an owner distinct
  from \<open>A\<close>, and a personal query under it returns the record of \<open>A\<close>. And
  after a record of \<open>B\<close> is saved with an embedding and a record of \<open>A\<close> is saved
  under the same id without one, the index entry is stale: a search scoped to \<open>B\<close>
  returns the record of \<open>A\<close>.
\<close>

theorem scope_isolation_counterexample:
  "\<not> is_hive_mind mem_a \<and> user_id mem_a = ''A'' \<and> [] \<noteq> ''A''
   \<and> mem_a \<in> set (memory_collection (storage_ab no_faults))
   \<and> mem_a \<in> set (snd (get_recent_memories (storage_ab no_faults) (Some []) False 3))
   \<and> mem_a \<in> set (snd (search_memories (storage_ab no_faults) [1, 0] (Some []) False 3 None))
   \<and> \<not> is_hive_mind mem_a_plain \<and> user_id mem_a_plain = ''A'' \<and> ''B'' \<noteq> ''A''
   \<and> memory_collection storage_stale = [mem_a_plain]
   \<and> snd (search_memories storage_stale [0, 1] (Some ''B'') False 3 None) = [mem_a_plain]"
proof -
  have a: "\<not> is_hive_mind mem_a \<and> user_id mem_a = ''A'' \<and> [] \<noteq> ''A''
     \<and> \<not> is_hive_mind mem_a_plain \<and> user_id mem_a_plain = ''A'' \<and> ''B'' \<noteq> ''A''"
    by (simp add: mem_a_def mem_a_plain_def personal_memory_def)
  have b: "mem_a \<in> set (memory_collection (storage_ab no_faults))"
    by (simp add: storage_ab_def)
  have c: "snd (get_recent_memories (storage_ab no_faults) (Some []) False 3) = [mem_b, mem_a]"
    by (simp add: get_recent_memories_result storage_ab_def no_faults_def recent_query_def
          mongo_limit_def mem_a_def mem_b_def personal_memory_def)
  have d: "snd (search_memories (storage_ab no_faults) [1, 0] (Some []) False 3 None)
      = [mem_a, mem_b]"
    by (simp add: search_memories_result search_memories_body_result storage_ab_def no_faults_def
          chroma_query_def where_clause_of_def scope_clause_def chroma_entry_of_def metadata_of_def
          mem_a_def mem_b_def personal_memory_def str_bool_def l1_distance_def hydrate_def
          sort_by_recency_def)
  have e: "memory_collection storage_stale = [mem_a_plain]"
    "chroma_collection storage_stale = [chroma_entry_of mem_b]"
    "chroma_distance storage_stale = l1_distance"
    "\<not> faults storage_stale 0" "\<not> faults storage_stale (Suc 0)"
    by (simp_all add: storage_stale_def save_memory_def backend_call_def has_embedding_def
          empty_storage_def no_faults_def mem_b_def mem_a_plain_def personal_memory_def
          bson_memory_def day1_def)
  have g: "snd (search_memories storage_stale [0, 1] (Some ''B'') False 3 None) = [mem_a_plain]"
    by (simp add: search_memories_result search_memories_body_result e
          chroma_query_def where_clause_of_def scope_clause_def chroma_entry_of_def metadata_of_def
          mem_b_def mem_a_plain_def personal_memory_def str_bool_def l1_distance_def hydrate_def
          sort_by_recency_def)
  from a b c d e(1) g show ?thesis by simp
qed


text \<open>
  Agreement of the index with the store is what \<open>save_memory\<close> maintains as long as
  records are saved under ids the index does not hold yet, from the empty storage on.
\<close>

lemma set_replace_one: "set (replace_one key doc ds) \<subseteq> insert doc (set ds)"
  by (induction ds) auto

lemma keys_replace_one:
  "key ` set (replace_one key doc ds) = insert (key doc) (key ` set ds)"
  by (induction ds) auto

lemma distinct_replace_one:
  "distinct (map key ds) \<Longrightarrow> distinct (map key (replace_one key doc ds))"
  by (induction ds) (auto simp: keys_replace_one)

lemma replace_one_member:
  "distinct (map key ds) \<Longrightarrow> d \<in> set (replace_one key doc ds) \<Longrightarrow>
     d = doc \<or> (d \<in> set ds \<and> key d \<noteq> key doc)"
proof (induction ds)
  case Nil
  then show ?case by simp
next
  case (Cons a ds)
  show ?case
  proof (cases "key a = key doc")
    case True
    with Cons.prems have "d = doc \<or> d \<in> set ds" by simp
    moreover from True Cons.prems(1) have "\<forall>x \<in> set ds. key x \<noteq> key doc"
      by (auto simp: image_iff)
    ultimately show ?thesis by auto
  next
    case False
    with Cons show ?thesis by auto
  qed
qed


lemma save_memory_collections:
  "memory_collection (fst (save_memory st m)) =
     (if faults st 0 then memory_collection st
      else replace_one memory_id (bson_memory m) (memory_collection st))"
  "chroma_collection (fst (save_memory st m)) =
     (if \<not> faults st 0 \<and> has_embedding m \<and> \<not> faults st 1
      then replace_one ce_id (chroma_entry_of m) (chroma_collection st)
      else chroma_collection st)"
  by (simp_all add: save_memory_def backend_call_def Let_def split: bool.splits)


lemma save_memory_keeps_consistency:
  assumes "index_consistent st" and "unique_ids st"
    and "memory_id m \<notin> ce_id ` set (chroma_collection st)"
  shows "index_consistent (fst (save_memory st m)) \<and> unique_ids (fst (save_memory st m))"
proof
  show "unique_ids (fst (save_memory st m))"
    using assms(2) by (simp add: unique_ids_def save_memory_collections distinct_replace_one)
  show "index_consistent (fst (save_memory st m))"
    unfolding index_consistent_def
  proof (intro ballI impI)
    fix e d
    assume e: "e \<in> set (chroma_collection (fst (save_memory st m)))"
      and d: "d \<in> set (memory_collection (fst (save_memory st m)))"
      and i: "memory_id d = ce_id e"
    from e set_replace_one [of ce_id "chroma_entry_of m" "chroma_collection st"]
    have e': "e = chroma_entry_of m \<or> e \<in> set (chroma_collection st)"
      by (auto simp: save_memory_collections split: if_splits)
    from d assms(2) replace_one_member [of memory_id "memory_collection st" d "bson_memory m"]
    have d': "d = bson_memory m \<or> d \<in> set (memory_collection st)"
      and d'': "faults st 0 \<or> d = bson_memory m \<or> memory_id d \<noteq> memory_id m"
      by (auto simp: save_memory_collections unique_ids_def bson_memory_fields split: if_splits)
    show "map_of (ce_metadata e) ''user_id'' = Some (user_id d)
        \<and> map_of (ce_metadata e) ''is_hive_mind'' = Some (str_bool (is_hive_mind d))"
    proof (cases "e \<in> set (chroma_collection st)")
      case True
      with assms(3) i have "memory_id d \<noteq> memory_id m" by force
      with d' have "d \<in> set (memory_collection st)" by (auto simp: bson_memory_fields)
      with True i assms(1) show ?thesis by (simp add: index_consistent_def)
    next
      case False
      with e' have em: "e = chroma_entry_of m" by simp
      with False e have "\<not> faults st 0"
        by (auto simp: save_memory_collections split: if_splits)
      with d'' i em have "d = bson_memory m" by (auto simp: chroma_entry_of_def)
      with em show ?thesis
        by (simp add: chroma_entry_of_def metadata_of_def bson_memory_fields)
    qed
  qed
qed

lemma empty_storage_consistent:
  "index_consistent (empty_storage f) \<and> unique_ids (empty_storage f)"
  by (simp add: index_consistent_def unique_ids_def empty_storage_def)

end
